theory Spec2Isabelle
  imports Complex_Main
begin

section \<open>Python values\<close>

text \<open>
  The agent's inputs and results are JSON-like Python objects: the request body is parsed
  into dictionaries with string keys whose values are \<^verbatim>\<open>None\<close>, booleans, integers,
  floats, strings, lists or dictionaries again. A dictionary is an association list in
  insertion order (the order in which Python iterates it); its keys are distinct.
  Floats are modelled as real numbers: rounding, infinities and NaN are outside the model.
  They change the values computed, not whether a statement raises; the arithmetic
  exceptions of the code, the conversion of an integer too large for a float and the
  division by zero, are modelled.
\<close>

datatype pyval =
    PNone
  | PBool bool
  | PInt int
  | PFloat real
  | PStr string
  | PList "pyval list"
  | PDict "(string \<times> pyval) list"

type_synonym pydict = "(string \<times> pyval) list"

text \<open>An exception (a subclass of \<^verbatim>\<open>Exception\<close>): its class name and its message.\<close>

datatype pyexn = PyExn (exn_class: string) (exn_msg: string)

definition str_exn :: "pyexn \<Rightarrow> string" where
  "str_exn e = exn_msg e"

definition TypeError :: "string \<Rightarrow> pyexn" where
  "TypeError msg = PyExn ''TypeError'' msg"

definition AttributeError :: "string \<Rightarrow> pyexn" where
  "AttributeError msg = PyExn ''AttributeError'' msg"

definition ValueError :: "string \<Rightarrow> pyexn" where
  "ValueError msg = PyExn ''ValueError'' msg"

definition ZeroDivisionError :: "string \<Rightarrow> pyexn" where
  "ZeroDivisionError msg = PyExn ''ZeroDivisionError'' msg"

definition OverflowError :: "string \<Rightarrow> pyexn" where
  "OverflowError msg = PyExn ''OverflowError'' msg"

fun py_type_name :: "pyval \<Rightarrow> string" where
  "py_type_name PNone = ''NoneType''"
| "py_type_name (PBool _) = ''bool''"
| "py_type_name (PInt _) = ''int''"
| "py_type_name (PFloat _) = ''float''"
| "py_type_name (PStr _) = ''str''"
| "py_type_name (PList _) = ''list''"
| "py_type_name (PDict _) = ''dict''"

definition quoted :: "string \<Rightarrow> string" where
  "quoted s = [CHR 0x27] @ s @ [CHR 0x27]"

definition dquoted :: "string \<Rightarrow> string" where
  "dquoted s = [CHR 0x22] @ s @ [CHR 0x22]"

text \<open>\<^verbatim>\<open>d.get(k, dflt)\<close> on a dictionary, and \<^verbatim>\<open>k in d\<close>.\<close>

definition dict_get :: "pydict \<Rightarrow> string \<Rightarrow> pyval \<Rightarrow> pyval" where
  "dict_get d k dflt = (case map_of d k of None \<Rightarrow> dflt | Some v \<Rightarrow> v)"

definition has_key :: "pydict \<Rightarrow> string \<Rightarrow> bool" where
  "has_key d k = (map_of d k \<noteq> None)"

text \<open>\<^verbatim>\<open>x.get(k, dflt)\<close> and \<^verbatim>\<open>x.items()\<close> on an arbitrary value: only a dictionary has
  these methods.\<close>

definition no_attribute :: "string \<Rightarrow> string \<Rightarrow> pyexn" where
  "no_attribute ty attr =
     AttributeError (quoted ty @ '' object has no attribute '' @ quoted attr)"

fun py_get :: "pyval \<Rightarrow> string \<Rightarrow> pyval \<Rightarrow> pyexn + pyval" where
  "py_get (PDict d) k dflt = Inr (dict_get d k dflt)"
| "py_get v k dflt = Inl (no_attribute (py_type_name v) ''get'')"

fun py_items :: "pyval \<Rightarrow> pyexn + (string \<times> pyval) list" where
  "py_items (PDict d) = Inr d"
| "py_items v = Inl (no_attribute (py_type_name v) ''items'')"

text \<open>Truth value of an object, as tested by \<^verbatim>\<open>if\<close>.\<close>

fun py_truthy :: "pyval \<Rightarrow> bool" where
  "py_truthy PNone = False"
| "py_truthy (PBool b) = b"
| "py_truthy (PInt i) = (i \<noteq> 0)"
| "py_truthy (PFloat r) = (r \<noteq> 0)"
| "py_truthy (PStr s) = (s \<noteq> [])"
| "py_truthy (PList xs) = (xs \<noteq> [])"
| "py_truthy (PDict d) = (d \<noteq> [])"

subsection \<open>Sequencing statements that may raise\<close>

text \<open>The first exception ends the block; otherwise the next statement sees the value.\<close>

definition bindE :: "pyexn + 'a \<Rightarrow> ('a \<Rightarrow> pyexn + 'b) \<Rightarrow> pyexn + 'b" where
  "bindE m f = (case m of Inl e \<Rightarrow> Inl e | Inr x \<Rightarrow> f x)"

subsection \<open>Numbers and arithmetic\<close>

text \<open>Python's numbers: \<^verbatim>\<open>int\<close> (with \<^verbatim>\<open>bool\<close> as a subclass) and \<^verbatim>\<open>float\<close>. An operation
  on two integers stays an integer; a float operand makes the result a float.\<close>

datatype pynum = NI int | NF real

fun as_num :: "pyval \<Rightarrow> pynum option" where
  "as_num (PBool b) = Some (NI (if b then 1 else 0))"
| "as_num (PInt i) = Some (NI i)"
| "as_num (PFloat r) = Some (NF r)"
| "as_num _ = None"

fun num_real :: "pynum \<Rightarrow> real" where
  "num_real (NI i) = real_of_int i"
| "num_real (NF r) = r"

fun num_val :: "pynum \<Rightarrow> pyval" where
  "num_val (NI i) = PInt i"
| "num_val (NF r) = PFloat r"

text \<open>In an operation on an integer and a float the integer is converted to a float first.
  The conversion rounds to the nearest float and raises when the result is beyond the
  largest one, that is, from \<open>2^1024 - 2^970\<close> on.\<close>

definition float_limit :: int where
  "float_limit = 2 ^ 1024 - 2 ^ 970"

definition float_of_int :: "int \<Rightarrow> pyexn + real" where
  "float_of_int i =
     (if \<bar>i\<bar> < float_limit then Inr (real_of_int i)
      else Inl (OverflowError ''int too large to convert to float''))"

fun num_float :: "pynum \<Rightarrow> pyexn + real" where
  "num_float (NI i) = float_of_int i"
| "num_float (NF r) = Inr r"

fun num_add :: "pynum \<Rightarrow> pynum \<Rightarrow> pyexn + pynum" where
  "num_add (NI a) (NI b) = Inr (NI (a + b))"
| "num_add a b = bindE (num_float a) (\<lambda>x. bindE (num_float b) (\<lambda>y. Inr (NF (x + y))))"

fun num_sub :: "pynum \<Rightarrow> pynum \<Rightarrow> pyexn + pynum" where
  "num_sub (NI a) (NI b) = Inr (NI (a - b))"
| "num_sub a b = bindE (num_float a) (\<lambda>x. bindE (num_float b) (\<lambda>y. Inr (NF (x - y))))"

fun num_mul :: "pynum \<Rightarrow> pynum \<Rightarrow> pyexn + pynum" where
  "num_mul (NI a) (NI b) = Inr (NI (a * b))"
| "num_mul a b = bindE (num_float a) (\<lambda>x. bindE (num_float b) (\<lambda>y. Inr (NF (x * y))))"

fun num_abs :: "pynum \<Rightarrow> pynum" where
  "num_abs (NI a) = NI \<bar>a\<bar>"
| "num_abs (NF r) = NF \<bar>r\<bar>"

fun is_seq :: "pyval \<Rightarrow> bool" where
  "is_seq (PStr _) = True"
| "is_seq (PList _) = True"
| "is_seq _ = False"

text \<open>Sequence repetition \<^verbatim>\<open>n * s\<close>: a non-positive count gives the empty sequence. (A
  count beyond the machine's index range or memory raises instead; the only repetition
  in the code is handed to \<^verbatim>\<open>abs\<close>, which raises on a sequence in any case.)\<close>

fun py_repeat :: "int \<Rightarrow> pyval \<Rightarrow> pyval" where
  "py_repeat n (PStr s) = PStr (concat (replicate (nat n) s))"
| "py_repeat n (PList xs) = PList (concat (replicate (nat n) xs))"
| "py_repeat n v = v"

definition unsupported_operand :: "string \<Rightarrow> pyval \<Rightarrow> pyval \<Rightarrow> pyexn" where
  "unsupported_operand opr a b =
     TypeError (''unsupported operand type(s) for '' @ opr @ '': '' @
                quoted (py_type_name a) @ '' and '' @ quoted (py_type_name b))"

definition non_int_repeat :: "pyval \<Rightarrow> pyexn" where
  "non_int_repeat b =
     TypeError (''can'' @ [CHR 0x27] @ ''t multiply sequence by non-int of type '' @
                quoted (py_type_name b))"

definition py_sub :: "pyval \<Rightarrow> pyval \<Rightarrow> pyexn + pyval" where
  "py_sub a b =
     (case (as_num a, as_num b) of
        (Some x, Some y) \<Rightarrow> bindE (num_sub x y) (\<lambda>r. Inr (num_val r))
      | _ \<Rightarrow> Inl (unsupported_operand ''-'' a b))"

definition py_mul :: "pyval \<Rightarrow> pyval \<Rightarrow> pyexn + pyval" where
  "py_mul a b =
     (case (as_num a, as_num b) of
        (Some x, Some y) \<Rightarrow> bindE (num_mul x y) (\<lambda>r. Inr (num_val r))
      | _ \<Rightarrow>
        if is_seq a then
          (case as_num b of Some (NI n) \<Rightarrow> Inr (py_repeat n a) | _ \<Rightarrow> Inl (non_int_repeat b))
        else if is_seq b then
          (case as_num a of Some (NI n) \<Rightarrow> Inr (py_repeat n b) | _ \<Rightarrow> Inl (non_int_repeat a))
        else Inl (unsupported_operand ''*'' a b))"

definition py_add :: "pyval \<Rightarrow> pyval \<Rightarrow> pyexn + pyval" where
  "py_add a b =
     (case (as_num a, as_num b) of
        (Some x, Some y) \<Rightarrow> bindE (num_add x y) (\<lambda>r. Inr (num_val r))
      | _ \<Rightarrow>
        (case (a, b) of
           (PStr s, PStr t) \<Rightarrow> Inr (PStr (s @ t))
         | (PList xs, PList ys) \<Rightarrow> Inr (PList (xs @ ys))
         | (PStr s, _) \<Rightarrow>
             Inl (TypeError (''can only concatenate str (not '' @ dquoted (py_type_name b) @
                             '') to str''))
         | (PList xs, _) \<Rightarrow>
             Inl (TypeError (''can only concatenate list (not '' @ dquoted (py_type_name b) @
                             '') to list''))
         | _ \<Rightarrow> Inl (unsupported_operand ''+'' a b)))"

text \<open>\<^verbatim>\<open>x > y\<close> where \<open>x\<close> is a number: numbers compare by value, anything else on the
  right is a type error.\<close>

definition num_gt :: "pynum \<Rightarrow> pyval \<Rightarrow> pyexn + bool" where
  "num_gt x b =
     (case as_num b of
        Some y \<Rightarrow> Inr (num_real y < num_real x)
      | None \<Rightarrow>
          Inl (TypeError (quoted ''>'' @ '' not supported between instances of '' @
                          quoted (py_type_name (num_val x)) @ '' and '' @
                          quoted (py_type_name b))))"

text \<open>\<^verbatim>\<open>abs(x)\<close>: defined on numbers only.\<close>

definition py_abs :: "pyval \<Rightarrow> pyexn + pynum" where
  "py_abs a =
     (case as_num a of
        Some x \<Rightarrow> Inr (num_abs x)
      | None \<Rightarrow> Inl (TypeError (''bad operand type for abs(): '' @ quoted (py_type_name a))))"

text \<open>\<^verbatim>\<open>x > 0\<close> for an \<open>x\<close> that \<^verbatim>\<open>abs\<close> has accepted, that is, a number.\<close>

definition py_positive :: "pyval \<Rightarrow> bool" where
  "py_positive a = (case as_num a of Some x \<Rightarrow> 0 < num_real x | None \<Rightarrow> False)"

text \<open>\<^verbatim>\<open>treasury_data.get(k, dflt)\<close>, where \<^verbatim>\<open>treasury_data\<close> is a dictionary or \<^verbatim>\<open>None\<close>.\<close>

definition opt_get :: "pydict option \<Rightarrow> string \<Rightarrow> pyval \<Rightarrow> pyexn + pyval" where
  "opt_get d k dflt =
     (case d of None \<Rightarrow> Inl (no_attribute ''NoneType'' ''get'')
      | Some d' \<Rightarrow> Inr (dict_get d' k dflt))"

subsection \<open>Iteration, hashing and dictionaries with arbitrary keys\<close>

text \<open>\<^verbatim>\<open>for x in v\<close>: a list gives its elements, a string its characters, a dictionary its
  keys; nothing else among these values can be iterated.\<close>

fun py_iter :: "pyval \<Rightarrow> pyexn + pyval list" where
  "py_iter (PList xs) = Inr xs"
| "py_iter (PStr s) = Inr (map (\<lambda>c. PStr [c]) s)"
| "py_iter (PDict d) = Inr (map (\<lambda>kv. PStr (fst kv)) d)"
| "py_iter v = Inl (TypeError (quoted (py_type_name v) @ '' object is not iterable''))"

text \<open>\<^verbatim>\<open>v.values()\<close>\<close>

fun py_values :: "pyval \<Rightarrow> pyexn + pyval list" where
  "py_values (PDict d) = Inr (map snd d)"
| "py_values v = Inl (no_attribute (py_type_name v) ''values'')"

text \<open>Lists and dictionaries cannot be keys of a dictionary.\<close>

fun hashable :: "pyval \<Rightarrow> bool" where
  "hashable (PList _) = False"
| "hashable (PDict _) = False"
| "hashable _ = True"

definition unhashable :: "pyval \<Rightarrow> pyexn" where
  "unhashable v = TypeError (''unhashable type: '' @ quoted (py_type_name v))"

text \<open>Keys are compared with \<^verbatim>\<open>==\<close>: numbers by value (\<^verbatim>\<open>True\<close>, \<^verbatim>\<open>1\<close> and \<^verbatim>\<open>1.0\<close> are one
  key), the other hashable values by content. A dictionary that the code builds is an
  association list in insertion order; \<^verbatim>\<open>d[k] = v\<close> keeps the place and the key object of an
  equal key and raises on a key that is not hashable.\<close>

definition key_eq :: "pyval \<Rightarrow> pyval \<Rightarrow> bool" where
  "key_eq a b =
     (case (as_num a, as_num b) of
        (Some x, Some y) \<Rightarrow> num_real x = num_real y
      | (None, None) \<Rightarrow> a = b
      | _ \<Rightarrow> False)"

fun key_lookup :: "(pyval \<times> 'v) list \<Rightarrow> pyval \<Rightarrow> 'v option" where
  "key_lookup [] k = None"
| "key_lookup (kv # d) k = (if key_eq (fst kv) k then Some (snd kv) else key_lookup d k)"

fun key_set :: "(pyval \<times> 'v) list \<Rightarrow> pyval \<Rightarrow> 'v \<Rightarrow> (pyval \<times> 'v) list" where
  "key_set [] k v = [(k, v)]"
| "key_set (kv # d) k v = (if key_eq (fst kv) k then (fst kv, v) # d else kv # key_set d k v)"

definition py_setitem :: "(pyval \<times> 'v) list \<Rightarrow> pyval \<Rightarrow> 'v \<Rightarrow> pyexn + (pyval \<times> 'v) list" where
  "py_setitem d k v = (if hashable k then Inr (key_set d k v) else Inl (unhashable k))"

text \<open>The dictionaries of \<open>pyval\<close> have string keys, as those of a request have. A dictionary
  with arbitrary keys is shown inside a result as the list of its key-value pairs.\<close>

definition mapping_value :: "(pyval \<times> pyval) list \<Rightarrow> pyval" where
  "mapping_value m = PList (map (\<lambda>kv. PList [fst kv, snd kv]) m)"

subsection \<open>Division and addition with a number on the left\<close>

text \<open>\<^verbatim>\<open>a / b\<close>. Two integers are divided exactly and the quotient rounded, which raises only
  for a zero divisor or a quotient beyond the floats; otherwise an integer operand is
  converted first.\<close>

definition py_truediv :: "pyval \<Rightarrow> pyval \<Rightarrow> pyexn + real" where
  "py_truediv a b =
     (case (as_num a, as_num b) of
        (Some (NI x), Some (NI y)) \<Rightarrow>
          if y = 0 then Inl (ZeroDivisionError ''division by zero'')
          else if real_of_int float_limit \<le> \<bar>real_of_int x / real_of_int y\<bar>
          then Inl (OverflowError ''integer division result too large for a float'')
          else Inr (real_of_int x / real_of_int y)
      | (Some x, Some y) \<Rightarrow>
          bindE (num_float x) (\<lambda>p.
          bindE (num_float y) (\<lambda>q.
            if q = 0 then Inl (ZeroDivisionError ''float division by zero'')
            else Inr (p / q)))
      | _ \<Rightarrow> Inl (unsupported_operand ''/'' a b))"

text \<open>\<^verbatim>\<open>x + b\<close> and \<^verbatim>\<open>x += b\<close> where \<open>x\<close> is a number: only a number can be added to it.\<close>

definition num_plus :: "pynum \<Rightarrow> pyval \<Rightarrow> pyexn + pynum" where
  "num_plus x b =
     (case as_num b of
        Some y \<Rightarrow> num_add x y
      | None \<Rightarrow> Inl (unsupported_operand ''+'' (num_val x) b))"

section \<open>The trader agent\<close>

subsection \<open>State\<close>

text \<open>The dictionary \<^verbatim>\<open>self.performance_metrics\<close> has a fixed set of keys, so it is a record.
  The counter the specification calls \<open>successful_requests\<close> is \<^verbatim>\<open>successful_trades\<close> in the
  code.\<close>

record metrics =
  total_trades :: int
  successful_trades :: int
  total_pnl :: real
  sharpe_ratio :: real
  max_drawdown :: real
  avg_response_time :: real
  success_rate :: real
  total_requests :: int

text \<open>The agent object. The network, the scaler, the optimizer and the loss are objects of
  external libraries; their type is a parameter.\<close>

record 'obj trader_agent =
  agent_id :: string
  model :: "'obj option"
  scaler :: 'obj
  is_trained :: bool
  performance_metrics :: metrics
  market_data_cache :: pydict
  last_predictions :: pydict
  optimizer :: "'obj option"
  criterion :: "'obj option"

definition initial_metrics :: metrics where
  "initial_metrics =
     \<lparr>total_trades = 0, successful_trades = 0, total_pnl = 0, sharpe_ratio = 0,
      max_drawdown = 0, avg_response_time = 0, success_rate = 0, total_requests = 0\<rparr>"

text \<open>\<^verbatim>\<open>TraderAgent.__init__\<close>: the identifier and the library objects come from outside.\<close>

definition init_agent ::
  "string \<Rightarrow> 'obj option \<Rightarrow> 'obj \<Rightarrow> bool \<Rightarrow> 'obj option \<Rightarrow> 'obj option \<Rightarrow> 'obj trader_agent" where
  "init_agent aid mdl sc trained opt crit =
     \<lparr>agent_id = aid, model = mdl, scaler = sc, is_trained = trained,
      performance_metrics = initial_metrics, market_data_cache = [], last_predictions = [],
      optimizer = opt, criterion = crit\<rparr>"

subsection \<open>What a call reads from outside\<close>

text \<open>
  One call of \<^verbatim>\<open>execute_action\<close> reads the clock, and its handlers draw random numbers and
  call torch and numpy. What these give is an input of the model:
  \<^item> \<open>elapsed\<close>: the value of \<^verbatim>\<open>time.time() - start_time\<close>;
  \<^item> \<open>random_draw\<close>: the value of \<^verbatim>\<open>np.random.random()\<close> in \<^verbatim>\<open>_execute_trade\<close>;
  \<^item> \<open>uuid4\<close>: the string of \<^verbatim>\<open>uuid.uuid4()\<close>;
  \<^item> \<open>model_forward\<close>: the forward pass of the network on the simulated market features
    (the five statements from \<^verbatim>\<open>_get_market_features\<close> to \<^verbatim>\<open>risk_score.item()\<close>), which
    raises or gives the allocations, one for each of the network's outputs, and the risk
    score;
  \<^item> \<open>expected_draw k asset\<close>: the value of \<^verbatim>\<open>np.random.normal(0.08, 0.15)\<close> stored for \<open>asset\<close>
    in the \<open>k\<close>-th call of \<^verbatim>\<open>_calculate_expected_returns\<close>;
  \<^item> \<open>historical_stats asset n\<close>: the percentile, the tail mean, the standard deviation and
    the mean that numpy computes of the \<open>n\<close> returns drawn by \<^verbatim>\<open>_get_historical_returns\<close>;
  \<^item> \<open>sampling_other asset days\<close>: what \<^verbatim>\<open>np.random.normal\<close> and the statistics do with a
    size that is not an integer from 0 to \<open>sample_limit\<close> (an exception, an empty sample, or
    statistics);
  \<^item> \<open>numpy_differs current target\<close>: the value of \<^verbatim>\<open>abs(current - target) > 0.05\<close> where
    \<open>target\<close> is an element of the numpy array of allocations, or the exception it raises.
\<close>

record forward_out =
  fw_allocations :: "nat \<Rightarrow> real"
  fw_risk_score :: real

record sample_stats =
  st_var_95 :: real
  st_cvar_95 :: real
  st_volatility :: real
  st_mean :: real

record call_env =
  elapsed :: real
  random_draw :: real
  uuid4 :: string
  model_forward :: "pyexn + forward_out"
  expected_draw :: "nat \<Rightarrow> pyval \<Rightarrow> real"
  historical_stats :: "pyval \<Rightarrow> nat \<Rightarrow> sample_stats"
  sampling_other :: "pyval \<Rightarrow> pyval \<Rightarrow> pyexn + sample_stats option"
  numpy_differs :: "pyval \<Rightarrow> real \<Rightarrow> pyexn + bool"

subsection \<open>Handlers\<close>

text \<open>Every handler is one \<^verbatim>\<open>try\<close> block whose \<^verbatim>\<open>except Exception\<close> clause returns this
  dictionary (it has no \<^verbatim>\<open>action\<close> key).\<close>

definition handler_failure :: "pyexn \<Rightarrow> pydict" where
  "handler_failure e =
     [(''success'', PBool False), (''error'', PStr (str_exn e)), (''confidence'', PFloat 0)]"

definition catch_handler :: "pyexn + pydict \<Rightarrow> pydict" where
  "catch_handler r = (case r of Inl e \<Rightarrow> handler_failure e | Inr d \<Rightarrow> d)"

subsubsection \<open>Expected returns\<close>

text \<open>\<^verbatim>\<open>_calculate_expected_returns(assets)\<close> returns a dictionary: one simulated return for
  each asset of the iterable.\<close>

fun expected_returns_loop ::
  "(pyval \<Rightarrow> real) \<Rightarrow> pyval list \<Rightarrow> (pyval \<times> real) list \<Rightarrow> pyexn + (pyval \<times> real) list" where
  "expected_returns_loop draw [] returns = Inr returns"
| "expected_returns_loop draw (asset # assets) returns =
     (case py_setitem returns asset (draw asset) of
        Inl e \<Rightarrow> Inl e
      | Inr returns' \<Rightarrow> expected_returns_loop draw assets returns')"

definition calculate_expected_returns ::
  "(pyval \<Rightarrow> real) \<Rightarrow> pyval \<Rightarrow> pyexn + (pyval \<times> real) list" where
  "calculate_expected_returns draw assets =
     bindE (py_iter assets) (\<lambda>items. expected_returns_loop draw items [])"

subsubsection \<open>optimize_portfolio\<close>

text \<open>The network has \<open>num_assets = 10\<close> outputs, so the array of allocations has 10
  elements.\<close>

definition num_assets :: nat where
  "num_assets = 10"

text \<open>\<^verbatim>\<open>allocations * expected_returns\<close> multiplies a numpy array by the dictionary that
  \<^verbatim>\<open>_calculate_expected_returns\<close> returns: numpy multiplies each element of the array by
  the dictionary, which a float does not support. Only an array without elements has
  nothing to multiply.\<close>

definition array_times_dict :: "real list \<Rightarrow> (pyval \<times> real) list \<Rightarrow> pyexn + real list" where
  "array_times_dict allocations expected_returns =
     (case allocations of
        [] \<Rightarrow> Inr []
      | a # _ \<Rightarrow> Inl (unsupported_operand ''*'' (PFloat a) (PDict [])))"

definition generate_allocation_recommendations :: "real list \<Rightarrow> real \<Rightarrow> pyexn + pyval" where
  "generate_allocation_recommendations allocations risk_score =
     (if allocations = []
      then Inl (ValueError ''attempt to get argmax of an empty sequence'')
      else Inr (PList
        ((if risk_score > 0.7
          then [PStr ''High risk detected - consider reducing exposure to volatile assets'']
          else []) @
         (if list_ex (\<lambda>a. a > 0.4) allocations
          then [PStr ''Consider diversifying - largest allocation exceeds 40%'']
          else []) @
         (if length (filter (\<lambda>a. a > 0.05) allocations) < 3
          then [PStr ''Portfolio may be under-diversified - consider adding more assets'']
          else []))))"

text \<open>The dictionary comprehension over \<^verbatim>\<open>zip(assets, allocations)\<close>.\<close>

fun allocation_items_loop ::
  "(pyval \<times> real) list \<Rightarrow> (pyval \<times> pyval) list \<Rightarrow> pyexn + (pyval \<times> pyval) list" where
  "allocation_items_loop [] d = Inr d"
| "allocation_items_loop (item # items) d =
     (case py_setitem d (fst item) (PFloat (snd item)) of
        Inl e \<Rightarrow> Inl e
      | Inr d' \<Rightarrow> allocation_items_loop items d')"

fun differs_loop :: "call_env \<Rightarrow> (pyval \<times> real) list \<Rightarrow> pyexn + bool" where
  "differs_loop env [] = Inr False"
| "differs_loop env (pair # pairs) =
     (case numpy_differs env (fst pair) (snd pair) of
        Inl e \<Rightarrow> Inl e
      | Inr d \<Rightarrow> if d then Inr True else differs_loop env pairs)"

definition check_rebalance_needed ::
  "call_env \<Rightarrow> real list \<Rightarrow> pydict option \<Rightarrow> pyexn + bool" where
  "check_rebalance_needed env target_allocations treasury_data =
     bindE (opt_get treasury_data ''current_allocations'' (PDict [])) (\<lambda>allocations.
     bindE (py_values allocations) (\<lambda>current_allocations.
       if length current_allocations \<noteq> length target_allocations then Inr True
       else differs_loop env (zip current_allocations target_allocations)))"

definition optimize_portfolio_body ::
  "call_env \<Rightarrow> pydict \<Rightarrow> pydict option \<Rightarrow> pyexn + pydict" where
  "optimize_portfolio_body env parameters treasury_data =
     (let assets = dict_get parameters ''assets'' (PList []) in
      bindE (model_forward env) (\<lambda>out.
      let allocations = map (fw_allocations out) [0..<num_assets];
          risk_score = fw_risk_score out in
      bindE (calculate_expected_returns (expected_draw env 0) assets) (\<lambda>expected_returns.
      bindE (array_times_dict allocations expected_returns) (\<lambda>weighted.
      let portfolio_return = sum_list weighted in
      bindE (generate_allocation_recommendations allocations risk_score) (\<lambda>recommendations.
      bindE (py_iter assets) (\<lambda>items.
      bindE (allocation_items_loop (zip items allocations) []) (\<lambda>allocation_of.
      bindE (check_rebalance_needed env allocations treasury_data) (\<lambda>rebalance_required.
        Inr [(''success'', PBool True),
             (''action'', PStr ''optimize_portfolio''),
             (''allocations'', mapping_value allocation_of),
             (''expected_return'', PFloat portfolio_return),
             (''risk_score'', PFloat risk_score),
             (''confidence'', PFloat (1 - risk_score)),
             (''recommendations'', recommendations),
             (''rebalance_required'', PBool rebalance_required)]))))))))"

definition optimize_portfolio :: "call_env \<Rightarrow> pydict \<Rightarrow> pydict option \<Rightarrow> pydict" where
  "optimize_portfolio env parameters treasury_data =
     catch_handler (optimize_portfolio_body env parameters treasury_data)"

subsubsection \<open>rebalance\<close>

definition mk_trade :: "string \<Rightarrow> pyval \<Rightarrow> pynum \<Rightarrow> pyval \<Rightarrow> pyval \<Rightarrow> pydict" where
  "mk_trade asset trade_value abs_value current_pct target_pct =
     [(''asset'', PStr asset),
      (''action'', PStr (if py_positive trade_value then ''buy'' else ''sell'')),
      (''amount'', num_val abs_value),
      (''current_allocation'', current_pct),
      (''target_allocation'', target_pct)]"

text \<open>One iteration of the loop over \<^verbatim>\<open>target_allocations.items()\<close>; the state of the loop is
  the list of trades and \<^verbatim>\<open>total_trade_value\<close>.\<close>

definition rebalance_step ::
  "pydict \<Rightarrow> pyval \<Rightarrow> pyval \<Rightarrow> string \<times> pyval \<Rightarrow> pydict list \<times> pynum
     \<Rightarrow> pyexn + pydict list \<times> pynum" where
  "rebalance_step parameters current_allocations total_value item st =
     (let asset = fst item; target_pct = snd item;
          trades = fst st; total_trade_value = snd st in
      bindE (py_get current_allocations asset (PInt 0)) (\<lambda>current_pct.
      bindE (py_sub target_pct current_pct) (\<lambda>difference.
      bindE (py_mul difference total_value) (\<lambda>trade_value.
      bindE (py_abs trade_value) (\<lambda>abs_value.
      bindE (num_gt abs_value (dict_get parameters ''min_trade_size'' (PInt 1000))) (\<lambda>big.
        if big
        then bindE (num_add total_trade_value abs_value) (\<lambda>total_trade_value'.
               Inr (trades @ [mk_trade asset trade_value abs_value current_pct target_pct],
                    total_trade_value'))
        else Inr (trades, total_trade_value)))))))"

fun rebalance_loop ::
  "pydict \<Rightarrow> pyval \<Rightarrow> pyval \<Rightarrow> (string \<times> pyval) list \<Rightarrow> pydict list \<times> pynum
     \<Rightarrow> pyexn + pydict list \<times> pynum" where
  "rebalance_loop parameters cur tv [] st = Inr st"
| "rebalance_loop parameters cur tv (item # items) st =
     (case rebalance_step parameters cur tv item st of
        Inl e \<Rightarrow> Inl e
      | Inr st' \<Rightarrow> rebalance_loop parameters cur tv items st')"

definition create_execution_plan :: "pydict list \<Rightarrow> pydict" where
  "create_execution_plan trades =
     [(''execution_order'', PList (map (\<lambda>trade. dict_get trade ''asset'' PNone) trades)),
      (''estimated_time'', PInt (int (length trades) * 2)),
      (''batch_size'', PInt (min 3 (int (length trades)))),
      (''priority'', PStr ''normal'')]"

definition rebalance_portfolio_body :: "pydict \<Rightarrow> pydict option \<Rightarrow> pyexn + pydict" where
  "rebalance_portfolio_body parameters treasury_data =
     (let target_allocations = dict_get parameters ''target_allocations'' (PDict []) in
      bindE (opt_get treasury_data ''current_allocations'' (PDict [])) (\<lambda>current_allocations.
      bindE (opt_get treasury_data ''total_value_usd'' (PInt 0)) (\<lambda>total_value.
      bindE (py_items target_allocations) (\<lambda>items.
      bindE (rebalance_loop parameters current_allocations total_value items ([], NI 0)) (\<lambda>st.
      let trades = fst st; total_trade_value = snd st in
      bindE (py_mul (PFloat (real (length trades) * 0.01)) total_value) (\<lambda>estimated_gas.
      bindE (num_mul total_trade_value (NF 0.005)) (\<lambda>estimated_slippage.
        Inr [(''success'', PBool True),
             (''action'', PStr ''rebalance''),
             (''trades'', PList (map PDict trades)),
             (''total_trades'', PInt (int (length trades))),
             (''total_trade_value'', num_val total_trade_value),
             (''estimated_gas'', estimated_gas),
             (''estimated_slippage'', num_val estimated_slippage),
             (''confidence'', PFloat 0.85),
             (''execution_plan'', PDict (create_execution_plan trades))])))))))"

definition rebalance_portfolio :: "pydict \<Rightarrow> pydict option \<Rightarrow> pydict" where
  "rebalance_portfolio parameters treasury_data =
     catch_handler (rebalance_portfolio_body parameters treasury_data)"

subsubsection \<open>risk_analysis\<close>

text \<open>\<^verbatim>\<open>np.random.normal(0.0008, 0.02, days)\<close> followed by the test \<^verbatim>\<open>len(...) > 0\<close> and the
  numpy statistics. A negative size raises, a size of 0 gives an empty sample, which the
  loop skips, and a size up to \<open>sample_limit\<close> gives a sample whose array fits in memory.\<close>

definition sample_limit :: int where
  "sample_limit = 1000000"

definition historical_returns_stats ::
  "call_env \<Rightarrow> pyval \<Rightarrow> pyval \<Rightarrow> pyexn + sample_stats option" where
  "historical_returns_stats env asset days =
     (case days of
        PInt n \<Rightarrow>
          if n < 0 then Inl (ValueError ''negative dimensions are not allowed'')
          else if n = 0 then Inr None
          else if n \<le> sample_limit then Inr (Some (historical_stats env asset (nat n)))
          else sampling_other env asset days
      | _ \<Rightarrow> sampling_other env asset days)"

definition risk_entry :: "sample_stats \<Rightarrow> pydict" where
  "risk_entry st =
     [(''var_95'', PFloat (st_var_95 st)),
      (''cvar_95'', PFloat (st_cvar_95 st)),
      (''volatility'', PFloat (st_volatility st)),
      (''sharpe_ratio'',
         if st_volatility st > 0 then PFloat (st_mean st / st_volatility st) else PInt 0)]"

text \<open>The loop over \<^verbatim>\<open>assets\<close>; its state is the dictionary \<^verbatim>\<open>risk_metrics\<close>.\<close>

fun risk_loop ::
  "call_env \<Rightarrow> pyval \<Rightarrow> pyval list \<Rightarrow> (pyval \<times> sample_stats) list
     \<Rightarrow> pyexn + (pyval \<times> sample_stats) list" where
  "risk_loop env time_horizon [] risk_metrics = Inr risk_metrics"
| "risk_loop env time_horizon (asset # assets) risk_metrics =
     (case py_mul time_horizon (PInt 2) of
        Inl e \<Rightarrow> Inl e
      | Inr days \<Rightarrow>
          (case historical_returns_stats env asset days of
             Inl e \<Rightarrow> Inl e
           | Inr None \<Rightarrow> risk_loop env time_horizon assets risk_metrics
           | Inr (Some st) \<Rightarrow>
               (case py_setitem risk_metrics asset st of
                  Inl e \<Rightarrow> Inl e
                | Inr risk_metrics' \<Rightarrow> risk_loop env time_horizon assets risk_metrics')))"

text \<open>\<^verbatim>\<open>_calculate_portfolio_var\<close>: the loop over the items of the current allocations.\<close>

fun portfolio_var_loop ::
  "(pyval \<times> sample_stats) list \<Rightarrow> (string \<times> pyval) list \<Rightarrow> pynum \<Rightarrow> pyexn + pynum" where
  "portfolio_var_loop risk_metrics [] portfolio_var = Inr portfolio_var"
| "portfolio_var_loop risk_metrics (item # items) portfolio_var =
     (case key_lookup risk_metrics (PStr (fst item)) of
        None \<Rightarrow> portfolio_var_loop risk_metrics items portfolio_var
      | Some st \<Rightarrow>
          (case py_mul (snd item) (PFloat (st_var_95 st)) of
             Inl e \<Rightarrow> Inl e
           | Inr weighted \<Rightarrow>
               (case num_plus portfolio_var weighted of
                  Inl e \<Rightarrow> Inl e
                | Inr portfolio_var' \<Rightarrow>
                    portfolio_var_loop risk_metrics items portfolio_var')))"

definition calculate_portfolio_var ::
  "(pyval \<times> sample_stats) list \<Rightarrow> pyval \<Rightarrow> pyexn + pynum" where
  "calculate_portfolio_var risk_metrics allocations =
     bindE (py_items allocations) (\<lambda>items. portfolio_var_loop risk_metrics items (NI 0))"

definition risk_level_of :: "real \<Rightarrow> string" where
  "risk_level_of portfolio_var =
     (if portfolio_var > - 0.05 then ''low''
      else if portfolio_var > - 0.10 then ''medium'' else ''high'')"

definition generate_risk_recommendations :: "string \<Rightarrow> pyval" where
  "generate_risk_recommendations risk_level =
     PList (if risk_level = ''high''
            then [PStr ''Consider reducing position sizes or adding hedging instruments'',
                  PStr ''Implement stop-loss orders for high-risk positions'']
            else if risk_level = ''medium''
            then [PStr ''Monitor positions closely and consider partial profit-taking'']
            else [PStr ''Current risk level is acceptable for the strategy''])"

definition analyze_risk_body :: "call_env \<Rightarrow> pydict \<Rightarrow> pydict option \<Rightarrow> pyexn + pydict" where
  "analyze_risk_body env parameters treasury_data =
     (let assets = dict_get parameters ''assets'' (PList []);
          time_horizon = dict_get parameters ''time_horizon'' (PInt 30) in
      bindE (py_iter assets) (\<lambda>items.
      bindE (risk_loop env time_horizon items []) (\<lambda>risk_metrics.
      bindE (opt_get treasury_data ''current_allocations'' (PDict [])) (\<lambda>allocations.
      bindE (calculate_portfolio_var risk_metrics allocations) (\<lambda>portfolio_var.
      let risk_level = risk_level_of (num_real portfolio_var) in
      bindE (num_float portfolio_var) (\<lambda>portfolio_var_95.
        Inr [(''success'', PBool True),
             (''action'', PStr ''risk_analysis''),
             (''asset_risks'',
                mapping_value (map (\<lambda>kv. (fst kv, PDict (risk_entry (snd kv)))) risk_metrics)),
             (''portfolio_var_95'', PFloat portfolio_var_95),
             (''risk_level'', PStr risk_level),
             (''confidence'', PFloat 0.90),
             (''recommendations'', generate_risk_recommendations risk_level)]))))))"

definition analyze_risk :: "call_env \<Rightarrow> pydict \<Rightarrow> pydict option \<Rightarrow> pydict" where
  "analyze_risk env parameters treasury_data =
     catch_handler (analyze_risk_body env parameters treasury_data)"

subsubsection \<open>yield_prediction\<close>

definition moderate_allocations :: "(string \<times> real) list" where
  "moderate_allocations = [(''ETH'', 0.4), (''USDC'', 0.3), (''AAVE'', 0.2), (''UNI'', 0.1)]"

definition strategy_table :: "(string \<times> (string \<times> real) list) list" where
  "strategy_table =
     [(''conservative'', [(''ETH'', 0.3), (''USDC'', 0.5), (''AAVE'', 0.2)]),
      (''moderate'', moderate_allocations),
      (''aggressive'', [(''ETH'', 0.5), (''AAVE'', 0.3), (''UNI'', 0.2)])]"

text \<open>\<^verbatim>\<open>strategies.get(strategy, strategies["moderate"])\<close>: the key must be hashable; the
  keys of the table are strings, so only a string can be found.\<close>

definition get_strategy_allocations :: "pyval \<Rightarrow> pyexn + (string \<times> real) list" where
  "get_strategy_allocations strategy =
     (if hashable strategy
      then Inr (case strategy of
                  PStr name \<Rightarrow>
                    (case map_of strategy_table name of
                       Some allocations \<Rightarrow> allocations
                     | None \<Rightarrow> moderate_allocations)
                | _ \<Rightarrow> moderate_allocations)
      else Inl (unhashable strategy))"

record yield_prediction =
  yp_annual_yield :: real
  yp_allocations :: "(string \<times> real) list"

definition yield_entry :: "yield_prediction \<Rightarrow> pydict" where
  "yield_entry p =
     [(''expected_annual_yield'', PFloat (yp_annual_yield p)),
      (''allocations'', PDict (map (\<lambda>a. (fst a, PFloat (snd a))) (yp_allocations p))),
      (''confidence'', PFloat 0.75),
      (''risk_adjusted_return'', PFloat (yp_annual_yield p * 0.8))]"

text \<open>The weighted return \<^verbatim>\<open>sum(allocation * expected_returns.get(asset, 0) ...)\<close>.\<close>

definition weighted_return :: "(string \<times> real) list \<Rightarrow> (pyval \<times> real) list \<Rightarrow> real" where
  "weighted_return allocations expected_returns =
     sum_list (map (\<lambda>a. snd a * (case key_lookup expected_returns (PStr (fst a)) of
                                     Some r \<Rightarrow> r | None \<Rightarrow> 0)) allocations)"

text \<open>The loop over \<^verbatim>\<open>strategies\<close>; \<open>k\<close> counts the calls of \<^verbatim>\<open>_calculate_expected_returns\<close>
  and the state is the dictionary \<^verbatim>\<open>predictions\<close>.\<close>

fun yield_loop ::
  "call_env \<Rightarrow> pyval \<Rightarrow> nat \<Rightarrow> pyval list \<Rightarrow> (pyval \<times> yield_prediction) list
     \<Rightarrow> pyexn + (pyval \<times> yield_prediction) list" where
  "yield_loop env time_horizon k [] predictions = Inr predictions"
| "yield_loop env time_horizon k (strategy # strategies) predictions =
     (case get_strategy_allocations strategy of
        Inl e \<Rightarrow> Inl e
      | Inr allocations \<Rightarrow>
          (case calculate_expected_returns (expected_draw env k)
                  (PList (map (\<lambda>a. PStr (fst a)) allocations)) of
             Inl e \<Rightarrow> Inl e
           | Inr expected_returns \<Rightarrow>
               (case py_truediv (PInt 365) time_horizon of
                  Inl e \<Rightarrow> Inl e
                | Inr per_year \<Rightarrow>
                    (case py_setitem predictions strategy
                            \<lparr>yp_annual_yield =
                               weighted_return allocations expected_returns * per_year,
                             yp_allocations = allocations\<rparr> of
                       Inl e \<Rightarrow> Inl e
                     | Inr predictions' \<Rightarrow>
                         yield_loop env time_horizon (Suc k) strategies predictions'))))"

text \<open>\<^verbatim>\<open>max(predictions.keys(), key=...)\<close>: the first key with the largest risk-adjusted
  return; no key at all raises.\<close>

fun first_best :: "(pyval \<times> yield_prediction) list \<Rightarrow> pyval \<times> yield_prediction \<Rightarrow> pyval" where
  "first_best [] best = fst best"
| "first_best (kv # rest) best =
     first_best rest
       (if yp_annual_yield (snd best) * 0.8 < yp_annual_yield (snd kv) * 0.8 then kv else best)"

definition best_strategy_of :: "(pyval \<times> yield_prediction) list \<Rightarrow> pyexn + pyval" where
  "best_strategy_of predictions =
     (case predictions of
        [] \<Rightarrow> Inl (ValueError ''max() arg is an empty sequence'')
      | kv # rest \<Rightarrow> Inr (first_best rest kv))"

definition predict_yield_body :: "call_env \<Rightarrow> pydict \<Rightarrow> pydict option \<Rightarrow> pyexn + pydict" where
  "predict_yield_body env parameters treasury_data =
     (let strategies = dict_get parameters ''strategies''
                         (PList [PStr ''conservative'', PStr ''moderate'', PStr ''aggressive'']);
          time_horizon = dict_get parameters ''time_horizon'' (PInt 365) in
      bindE (py_iter strategies) (\<lambda>items.
      bindE (yield_loop env time_horizon 0 items []) (\<lambda>predictions.
      bindE (best_strategy_of predictions) (\<lambda>best_strategy.
        Inr [(''success'', PBool True),
             (''action'', PStr ''yield_prediction''),
             (''predictions'',
                mapping_value (map (\<lambda>kv. (fst kv, PDict (yield_entry (snd kv)))) predictions)),
             (''recommended_strategy'', best_strategy),
             (''confidence'', PFloat 0.80),
             (''time_horizon_days'', time_horizon)]))))"

definition predict_yield :: "call_env \<Rightarrow> pydict \<Rightarrow> pydict option \<Rightarrow> pydict" where
  "predict_yield env parameters treasury_data =
     catch_handler (predict_yield_body env parameters treasury_data)"

subsubsection \<open>execute_trade\<close>

definition prices :: "(string \<times> real) list" where
  "prices = [(''ETH'', 2500.0), (''USDC'', 1.0), (''AAVE'', 120.0), (''UNI'', 8.5)]"

text \<open>\<^verbatim>\<open>prices.get(asset, 100.0)\<close>: the key must be hashable, which lists and dictionaries are
  not; the keys of the table are strings, so only a string can be found.\<close>

fun get_current_price :: "pyval \<Rightarrow> pyexn + real" where
  "get_current_price (PStr asset) =
     Inr (case map_of prices asset of None \<Rightarrow> 100.0 | Some price \<Rightarrow> price)"
| "get_current_price (PList xs) = Inl (TypeError (''unhashable type: '' @ quoted ''list''))"
| "get_current_price (PDict d) = Inl (TypeError (''unhashable type: '' @ quoted ''dict''))"
| "get_current_price v = Inr 100.0"

record trade_values =
  tv_execution_price :: real
  tv_slippage :: pyval
  tv_executed_amount :: pyval
  tv_total_cost :: pyval

text \<open>The statements of \<^verbatim>\<open>_execute_trade\<close> before the counter is touched.\<close>

definition trade_prelude :: "pydict \<Rightarrow> pyexn + trade_values" where
  "trade_prelude parameters =
     (let asset = dict_get parameters ''asset'' PNone;
          amount = dict_get parameters ''amount'' PNone;
          gas_cost = PInt 50 in
      bindE (get_current_price asset) (\<lambda>execution_price.
      bindE (py_mul amount (PFloat 0.001)) (\<lambda>slippage.
      bindE (py_sub amount slippage) (\<lambda>executed_amount.
      bindE (py_add amount gas_cost) (\<lambda>total_cost.
        Inr \<lparr>tv_execution_price = execution_price, tv_slippage = slippage,
             tv_executed_amount = executed_amount, tv_total_cost = total_cost\<rparr>)))))"

text \<open>The handler changes \<^verbatim>\<open>self.performance_metrics\<close>, so it takes and returns the metrics.\<close>

definition execute_trade_body ::
  "call_env \<Rightarrow> pydict \<Rightarrow> pydict option \<Rightarrow> metrics \<Rightarrow> (pyexn + pydict) \<times> metrics" where
  "execute_trade_body env parameters treasury_data m =
     (let asset = dict_get parameters ''asset'' PNone;
          action = dict_get parameters ''action'' PNone;
          amount = dict_get parameters ''amount'' PNone in
      case trade_prelude parameters of
        Inl e \<Rightarrow> (Inl e, m)
      | Inr v \<Rightarrow>
          (let m' = m\<lparr>total_trades := total_trades m + 1\<rparr>;
               success = (random_draw env > 0.05) in
           if success
           then (Inr [(''success'', PBool True),
                      (''action'', PStr ''execute_trade''),
                      (''asset'', asset),
                      (''trade_action'', action),
                      (''requested_amount'', amount),
                      (''executed_amount'', tv_executed_amount v),
                      (''execution_price'', PFloat (tv_execution_price v)),
                      (''slippage'', tv_slippage v),
                      (''gas_cost'', PInt 50),
                      (''total_cost'', tv_total_cost v),
                      (''confidence'', PFloat 0.95),
                      (''transaction_id'', PStr (uuid4 env))], m')
           else (Inr [(''success'', PBool False),
                      (''error'', PStr ''Trade execution failed - insufficient liquidity''),
                      (''confidence'', PFloat 0)], m')))"

definition execute_trade ::
  "call_env \<Rightarrow> pydict \<Rightarrow> pydict option \<Rightarrow> metrics \<Rightarrow> pydict \<times> metrics" where
  "execute_trade env parameters treasury_data m =
     (case execute_trade_body env parameters treasury_data m of
        (r, m') \<Rightarrow> (catch_handler r, m'))"

subsection \<open>The dispatcher\<close>

text \<open>The \<^verbatim>\<open>if\<close>/\<^verbatim>\<open>elif\<close> chain of \<^verbatim>\<open>execute_action\<close>; its last branch raises.\<close>

definition dispatch ::
  "call_env \<Rightarrow> string \<Rightarrow> pydict \<Rightarrow> pydict option \<Rightarrow> metrics \<Rightarrow> (pyexn + pydict) \<times> metrics" where
  "dispatch env action parameters treasury_data m =
     (if action = ''optimize_portfolio''
      then (Inr (optimize_portfolio env parameters treasury_data), m)
      else if action = ''rebalance''
      then (Inr (rebalance_portfolio parameters treasury_data), m)
      else if action = ''risk_analysis''
      then (Inr (analyze_risk env parameters treasury_data), m)
      else if action = ''yield_prediction''
      then (Inr (predict_yield env parameters treasury_data), m)
      else if action = ''execute_trade''
      then (case execute_trade env parameters treasury_data m of (r, m') \<Rightarrow> (Inr r, m'))
      else (Inl (ValueError (''Unknown action: '' @ action)), m))"

text \<open>The statements after the chain, still inside the \<^verbatim>\<open>try\<close>: the running mean, the
  success counter and the success rate. Both divisions are by \<^verbatim>\<open>total_requests\<close>; Python
  raises on a zero divisor. (The counters start at 0 and grow by one per call, so they
  stay far below the range where the conversion to a float fails; that conversion is
  taken as exact here.)\<close>

definition update_metrics :: "call_env \<Rightarrow> pydict \<Rightarrow> metrics \<Rightarrow> pyexn + metrics" where
  "update_metrics env result m =
     (if total_requests m = 0 then Inl (ZeroDivisionError ''float division by zero'')
      else
        let m1 = m\<lparr>avg_response_time :=
                     (avg_response_time m * real_of_int (total_requests m - 1) + elapsed env) /
                     real_of_int (total_requests m)\<rparr>;
            m2 = (if py_truthy (dict_get result ''success'' (PBool False))
                  then m1\<lparr>successful_trades := successful_trades m1 + 1\<rparr> else m1)
        in Inr (m2\<lparr>success_rate :=
                     real_of_int (successful_trades m2) / real_of_int (total_requests m2)\<rparr>))"

definition try_block ::
  "call_env \<Rightarrow> string \<Rightarrow> pydict \<Rightarrow> pydict option \<Rightarrow> metrics \<Rightarrow> (pyexn + pydict) \<times> metrics" where
  "try_block env action parameters treasury_data m =
     (case dispatch env action parameters treasury_data m of
        (Inl e, m') \<Rightarrow> (Inl e, m')
      | (Inr result, m') \<Rightarrow>
          (case update_metrics env result m' of
             Inl e \<Rightarrow> (Inl e, m')
           | Inr m'' \<Rightarrow> (Inr result, m'')))"

definition action_failure :: "string \<Rightarrow> pyexn \<Rightarrow> pydict" where
  "action_failure action e =
     [(''success'', PBool False), (''error'', PStr (str_exn e)), (''confidence'', PFloat 0),
      (''action'', PStr action)]"

definition execute_action ::
  "call_env \<Rightarrow> 'obj trader_agent \<Rightarrow> string \<Rightarrow> pydict \<Rightarrow> pydict option
     \<Rightarrow> pydict \<times> 'obj trader_agent" where
  "execute_action env self action parameters treasury_data =
     (let m = performance_metrics self;
          m1 = m\<lparr>total_requests := total_requests m + 1\<rparr> in
      case try_block env action parameters treasury_data m1 of
        (Inr result, m') \<Rightarrow> (result, self\<lparr>performance_metrics := m'\<rparr>)
      | (Inl e, m') \<Rightarrow> (action_failure action e, self\<lparr>performance_metrics := m'\<rparr>))"

text \<open>A sequence of calls on one agent, each with what it reads from outside; the results are
  returned in order.\<close>

record call =
  c_env :: call_env
  c_action :: string
  c_parameters :: pydict
  c_treasury :: "pydict option"

fun run_calls :: "'obj trader_agent \<Rightarrow> call list \<Rightarrow> pydict list \<times> 'obj trader_agent" where
  "run_calls self [] = ([], self)"
| "run_calls self (c # cs) =
     (case execute_action (c_env c) self (c_action c) (c_parameters c) (c_treasury c) of
        (r, self') \<Rightarrow> (case run_calls self' cs of (rs, self'') \<Rightarrow> (r # rs, self'')))"

definition registered :: "string \<Rightarrow> bool" where
  "registered action \<longleftrightarrow>
     action \<in> {''optimize_portfolio'', ''rebalance'', ''risk_analysis'', ''yield_prediction'',
               ''execute_trade''}"

section \<open>The explainability service\<close>

text \<open>
  \<^verbatim>\<open>XAIExplainer\<close> keeps the surrogate models it has fitted, a cache of explanations and
  the table of feature names. Fitting a model, computing SHAP values, drawing the random
  feature vector and formatting numbers into text are library calls: each is an input of
  the model that gives a value or an exception. The helper methods keep their own
  \<^verbatim>\<open>try\<close> blocks.
\<close>

record cache_entry =
  ce_agent_type :: string
  ce_action :: string
  ce_shap_values :: pyval
  ce_human_explanation :: string
  ce_features :: pyval
  ce_timestamp :: real

record 'mdl xai_explainer =
  surrogate_models :: "(string \<times> 'mdl) list"
  explanation_cache :: "(string \<times> cache_entry) list"
  feature_names :: "(string \<times> string list) list"

record 'mdl explain_env =
  xe_uuid4 :: string
  xe_fit_surrogate :: "string \<Rightarrow> pyexn + 'mdl"
  xe_extract :: "string \<Rightarrow> pydict \<Rightarrow> pydict \<Rightarrow> pyexn + pyval"
  xe_shap_values :: "'mdl \<Rightarrow> pyval \<Rightarrow> pyexn + pyval"
  xe_render :: "string \<Rightarrow> string \<Rightarrow> pyval \<Rightarrow> pydict \<Rightarrow> pyexn + string"
  xe_format_percent :: "pyval \<Rightarrow> pyexn + string"
  xe_loop_time :: real

text \<open>\<^verbatim>\<open>d[k] = v\<close>: an existing key keeps its place, a new key goes last.\<close>

fun dict_set :: "('k \<times> 'v) list \<Rightarrow> 'k \<Rightarrow> 'v \<Rightarrow> ('k \<times> 'v) list" where
  "dict_set [] k v = [(k, v)]"
| "dict_set ((k', v') # d) k v = (if k' = k then (k, v) # d else (k', v') # dict_set d k v)"

text \<open>\<^verbatim>\<open>np.zeros(len(self.feature_names.get(agent_type, [])))\<close>\<close>

definition zero_features :: "'mdl xai_explainer \<Rightarrow> string \<Rightarrow> pyval" where
  "zero_features self agent_type =
     PList (replicate
       (length (case map_of (feature_names self) agent_type of None \<Rightarrow> [] | Some ns \<Rightarrow> ns))
       (PFloat 0))"

definition create_surrogate_model ::
  "'mdl explain_env \<Rightarrow> 'mdl xai_explainer \<Rightarrow> string \<Rightarrow> 'mdl xai_explainer" where
  "create_surrogate_model env self agent_type =
     (case xe_fit_surrogate env agent_type of
        Inl e \<Rightarrow> self
      | Inr mdl \<Rightarrow> self\<lparr>surrogate_models := dict_set (surrogate_models self) agent_type mdl\<rparr>)"

definition extract_features ::
  "'mdl explain_env \<Rightarrow> 'mdl xai_explainer \<Rightarrow> string \<Rightarrow> pydict \<Rightarrow> pydict \<Rightarrow> pyval" where
  "extract_features env self agent_type parameters result =
     (case xe_extract env agent_type parameters result of
        Inl e \<Rightarrow> zero_features self agent_type
      | Inr features \<Rightarrow> features)"

definition get_shap_explanation ::
  "'mdl explain_env \<Rightarrow> 'mdl xai_explainer \<Rightarrow> string \<Rightarrow> pyval \<Rightarrow> pyval \<times> 'mdl xai_explainer" where
  "get_shap_explanation env self agent_type features =
     (let self1 = (if map_of (surrogate_models self) agent_type = None
                   then create_surrogate_model env self agent_type else self) in
      case map_of (surrogate_models self1) agent_type of
        None \<Rightarrow> (zero_features self1 agent_type, self1)
      | Some mdl \<Rightarrow>
          (case xe_shap_values env mdl features of
             Inl e \<Rightarrow> (zero_features self1 agent_type, self1)
           | Inr shap_values \<Rightarrow> (shap_values, self1)))"

text \<open>The \<^verbatim>\<open>except\<close> clause of \<^verbatim>\<open>_generate_human_explanation\<close> formats the confidence
  again, so it can raise in turn.\<close>

definition generate_human_explanation ::
  "'mdl explain_env \<Rightarrow> string \<Rightarrow> string \<Rightarrow> pyval \<Rightarrow> pydict \<Rightarrow> pyexn + string" where
  "generate_human_explanation env agent_type action shap_values result =
     (case xe_render env agent_type action shap_values result of
        Inr text \<Rightarrow> Inr text
      | Inl e \<Rightarrow>
          bindE (xe_format_percent env (dict_get result ''confidence'' (PInt 0))) (\<lambda>pct.
            Inr (''Decision made by '' @ agent_type @ '' agent with '' @ pct @
                 '' confidence.'')))"

definition explain_decision_body ::
  "'mdl explain_env \<Rightarrow> 'mdl xai_explainer \<Rightarrow> string \<Rightarrow> string \<Rightarrow> pydict \<Rightarrow> pydict
     \<Rightarrow> (pyexn + string) \<times> 'mdl xai_explainer" where
  "explain_decision_body env self agent_type action parameters result =
     (let explanation_id = xe_uuid4 env;
          self1 = (if map_of (surrogate_models self) agent_type = None
                   then create_surrogate_model env self agent_type else self);
          features = extract_features env self1 agent_type parameters result;
          (shap_explanation, self2) = get_shap_explanation env self1 agent_type features
      in case generate_human_explanation env agent_type action shap_explanation result of
           Inl e \<Rightarrow> (Inl e, self2)
         | Inr human_explanation \<Rightarrow>
             (Inr human_explanation,
              self2\<lparr>explanation_cache :=
                dict_set (explanation_cache self2) explanation_id
                  \<lparr>ce_agent_type = agent_type, ce_action = action,
                   ce_shap_values = shap_explanation,
                   ce_human_explanation = human_explanation,
                   ce_features = features, ce_timestamp = xe_loop_time env\<rparr>\<rparr>))"

text \<open>The result is \<open>Inr\<close> of the returned string, or \<open>Inl\<close> of an exception that leaves
  the method.\<close>

definition explain_decision ::
  "'mdl explain_env \<Rightarrow> 'mdl xai_explainer \<Rightarrow> string \<Rightarrow> string \<Rightarrow> pydict \<Rightarrow> pydict
     \<Rightarrow> (pyexn + string) \<times> 'mdl xai_explainer" where
  "explain_decision env self agent_type action parameters result =
     (case explain_decision_body env self agent_type action parameters result of
        (Inr text, self') \<Rightarrow> (Inr text, self')
      | (Inl e, self') \<Rightarrow> (Inr (''Unable to generate explanation: '' @ str_exn e), self'))"

section \<open>Notions used in the properties\<close>

text \<open>The handler of a registered action ends in its own \<^verbatim>\<open>except\<close> clause when the body
  of its \<^verbatim>\<open>try\<close> block raises; this gives the exception, if any.\<close>

definition handler_exception ::
  "call_env \<Rightarrow> string \<Rightarrow> pydict \<Rightarrow> pydict option \<Rightarrow> pyexn option" where
  "handler_exception env action parameters treasury_data =
     (let outcome =
        (if action = ''optimize_portfolio''
         then optimize_portfolio_body env parameters treasury_data
         else if action = ''rebalance''
         then rebalance_portfolio_body parameters treasury_data
         else if action = ''risk_analysis''
         then analyze_risk_body env parameters treasury_data
         else if action = ''yield_prediction''
         then predict_yield_body env parameters treasury_data
         else if action = ''execute_trade''
         then bindE (trade_prelude parameters) (\<lambda>v. Inr [])
         else Inr [])
      in case outcome of Inl e \<Rightarrow> Some e | Inr d \<Rightarrow> None)"

text \<open>Reading the fields of a result.\<close>

definition result_success :: "pydict \<Rightarrow> bool" where
  "result_success r = py_truthy (dict_get r ''success'' (PBool False))"

text \<open>Well-typed requests.

  A trade request has a hashable asset and an amount that is a float or an integer that
  converts to a float.

  A rebalancing request has treasury data, and its numbers are floats or integers of at
  most 53 bits: the target allocations, the current allocations of the targeted assets and
  the total value. The minimum trade size is any number, and the targets are fewer than
  \<open>2^63\<close>, as the entries of any dictionary are. (The bounds keep the integers that the
  handler computes convertible to floats.)\<close>

definition is_number :: "pyval \<Rightarrow> bool" where
  "is_number v = (as_num v \<noteq> None)"

definition convertible :: "pyval \<Rightarrow> bool" where
  "convertible v =
     (case as_num v of
        None \<Rightarrow> False
      | Some (NI i) \<Rightarrow> \<bar>i\<bar> < float_limit
      | Some (NF r) \<Rightarrow> True)"

definition small_number :: "pyval \<Rightarrow> bool" where
  "small_number v =
     (case as_num v of
        None \<Rightarrow> False
      | Some (NI i) \<Rightarrow> \<bar>i\<bar> \<le> 2 ^ 53
      | Some (NF r) \<Rightarrow> True)"

text \<open>A number that is a float, or an integer of absolute value at most \<open>B\<close>.\<close>

definition bounded_by :: "int \<Rightarrow> pynum \<Rightarrow> bool" where
  "bounded_by B x = (case x of NI i \<Rightarrow> \<bar>i\<bar> \<le> B | NF r \<Rightarrow> True)"

fun numeric_targets :: "(string \<times> pyval) list \<Rightarrow> pydict \<Rightarrow> bool" where
  "numeric_targets [] cur = True"
| "numeric_targets ((asset, target_pct) # items) cur =
     (small_number target_pct \<and> small_number (dict_get cur asset (PInt 0)) \<and>
      numeric_targets items cur)"

definition valid_rebalance :: "pydict \<Rightarrow> pydict option \<Rightarrow> bool" where
  "valid_rebalance parameters treasury_data =
     (case treasury_data of
        None \<Rightarrow> False
      | Some td \<Rightarrow>
          small_number (dict_get td ''total_value_usd'' (PInt 0)) \<and>
          is_number (dict_get parameters ''min_trade_size'' (PInt 1000)) \<and>
          (case dict_get parameters ''target_allocations'' (PDict []) of
             PDict items \<Rightarrow>
               int (length items) < 2 ^ 63 \<and>
               (case dict_get td ''current_allocations'' (PDict []) of
                  PDict cur \<Rightarrow> numeric_targets items cur
                | _ \<Rightarrow> items = [])
           | _ \<Rightarrow> False))"

definition valid_trade :: "pydict \<Rightarrow> bool" where
  "valid_trade parameters =
     (hashable (dict_get parameters ''asset'' PNone) \<and>
      convertible (dict_get parameters ''amount'' PNone))"

text \<open>An environment for the examples: the network is not available (its forward pass
  raises), every simulated expected return is 0.08, and every sample of historical returns
  has the same statistics. It fixes the clock reading and the random draw.\<close>

definition unavailable :: pyexn where
  "unavailable = PyExn ''RuntimeError'' ''library call failed''"

definition offline_env :: "real \<Rightarrow> real \<Rightarrow> call_env" where
  "offline_env t draw =
     \<lparr>elapsed = t, random_draw = draw, uuid4 = ''00000000-0000-4000-8000-000000000000'',
      model_forward = Inl unavailable,
      expected_draw = (\<lambda>k asset. 0.08),
      historical_stats = (\<lambda>asset n. \<lparr>st_var_95 = - 0.03, st_cvar_95 = - 0.04,
                                      st_volatility = 0.02, st_mean = 0.0008\<rparr>),
      sampling_other = (\<lambda>asset days. Inl unavailable),
      numpy_differs = (\<lambda>current target. Inl unavailable)\<rparr>"

text \<open>The same environment with a network that answers: equal allocations and a risk
  score of 0.5.\<close>

definition online_env :: "real \<Rightarrow> real \<Rightarrow> call_env" where
  "online_env t draw =
     (offline_env t draw)
       \<lparr>model_forward := Inr \<lparr>fw_allocations = (\<lambda>i. 0.1), fw_risk_score = 0.5\<rparr>\<rparr>"

definition fresh_agent :: "unit trader_agent" where
  "fresh_agent = init_agent ''agent-0'' None () False None None"

text \<open>The rebalancing scenario of the specification.\<close>

definition scenario_parameters :: pydict where
  "scenario_parameters =
     [(''target_allocations'', PDict [(''A'', PFloat 0.6), (''B'', PFloat 0.4)]),
      (''min_trade_size'', PInt 100)]"

definition scenario_treasury :: pydict where
  "scenario_treasury =
     [(''current_allocations'', PDict [(''A'', PFloat 0.5), (''B'', PFloat 0.5)]),
      (''total_value_usd'', PInt 10000)]"

definition trade_parameters :: pydict where
  "trade_parameters = [(''asset'', PStr ''ETH''), (''action'', PStr ''buy''), (''amount'', PInt 1000)]"

definition mk_call :: "call_env \<Rightarrow> string \<Rightarrow> pydict \<Rightarrow> pydict option \<Rightarrow> call" where
  "mk_call env action parameters treasury_data =
     \<lparr>c_env = env, c_action = action, c_parameters = parameters, c_treasury = treasury_data\<rparr>"

text \<open>A risk analysis request has treasury data whose current allocations are a
  dictionary of floats or of integers that convert to a float, an iterable of hashable
  assets, and a time horizon that is an integer \<open>n\<close> with \<open>0 \<le> 2 n \<le> sample_limit\<close>.\<close>

definition valid_risk :: "pydict \<Rightarrow> pydict option \<Rightarrow> bool" where
  "valid_risk parameters treasury_data =
     (case treasury_data of
        None \<Rightarrow> False
      | Some td \<Rightarrow>
          (case dict_get td ''current_allocations'' (PDict []) of
             PDict cur \<Rightarrow> list_all (\<lambda>kv. convertible (snd kv)) cur
           | _ \<Rightarrow> False) \<and>
          (case py_iter (dict_get parameters ''assets'' (PList [])) of
             Inl e \<Rightarrow> False
           | Inr items \<Rightarrow> list_all hashable items) \<and>
          (case as_num (dict_get parameters ''time_horizon'' (PInt 30)) of
             Some (NI n) \<Rightarrow> 0 \<le> n \<and> 2 * n \<le> sample_limit
           | _ \<Rightarrow> False))"

text \<open>A yield prediction request has a non-empty iterable of hashable strategies and a
  time horizon that is a number other than 0.\<close>

definition valid_yield :: "pydict \<Rightarrow> bool" where
  "valid_yield parameters =
     ((case py_iter (dict_get parameters ''strategies''
                      (PList [PStr ''conservative'', PStr ''moderate'', PStr ''aggressive''])) of
         Inl e \<Rightarrow> False
       | Inr items \<Rightarrow> items \<noteq> [] \<and> list_all hashable items) \<and>
      (case as_num (dict_get parameters ''time_horizon'' (PInt 365)) of
         None \<Rightarrow> False
       | Some (NI n) \<Rightarrow> n \<noteq> 0
       | Some (NF r) \<Rightarrow> r \<noteq> 0))"

text \<open>A valid request for one of the four actions \<^verbatim>\<open>rebalance\<close>, \<^verbatim>\<open>risk_analysis\<close>,
  \<^verbatim>\<open>yield_prediction\<close> and \<^verbatim>\<open>execute_trade\<close>. No request for \<^verbatim>\<open>optimize_portfolio\<close> is
  counted here: its handler raises on every request.\<close>

definition valid_request :: "string \<Rightarrow> pydict \<Rightarrow> pydict option \<Rightarrow> bool" where
  "valid_request action parameters treasury_data =
     (if action = ''rebalance''
      then valid_rebalance parameters treasury_data
      else if action = ''risk_analysis''
      then valid_risk parameters treasury_data
      else if action = ''yield_prediction''
      then valid_yield parameters
      else action = ''execute_trade'' \<and> valid_trade parameters)"

text \<open>Requests for the examples.\<close>

definition risk_parameters :: pydict where
  "risk_parameters = [(''assets'', PList [PStr ''A'', PStr ''B'']), (''time_horizon'', PInt 30)]"

definition optimize_parameters :: pydict where
  "optimize_parameters = [(''assets'', PList [PStr ''ETH'', PStr ''USDC''])]"

text \<open>The arithmetic mean of a non-empty list of readings.\<close>

definition mean :: "real list \<Rightarrow> real" where
  "mean ts = sum_list ts / real (length ts)"

text \<open>Three calls, the second of which has no treasury data, so that its handler raises
  inside its \<^verbatim>\<open>try\<close> block.\<close>

definition three_calls :: "call list" where
  "three_calls =
     [mk_call (offline_env 1 0.5) ''rebalance'' scenario_parameters (Some scenario_treasury),
      mk_call (offline_env 2 0.5) ''rebalance'' scenario_parameters None,
      mk_call (offline_env 3 0.5) ''execute_trade'' trade_parameters None]"

text \<open>A successful call followed by a call with an unregistered action; and an
  unregistered action that took one second followed by a successful call that took
  three.\<close>

definition success_then_unknown :: "call list" where
  "success_then_unknown =
     [mk_call (offline_env 1 0.5) ''rebalance'' scenario_parameters (Some scenario_treasury),
      mk_call (offline_env 1 0.5) ''liquidate'' [] None]"

definition unknown_then_success :: "call list" where
  "unknown_then_success =
     [mk_call (offline_env 1 0.5) ''liquidate'' [] None,
      mk_call (offline_env 3 0.5) ''rebalance'' scenario_parameters (Some scenario_treasury)]"

section \<open>Properties of the dispatcher\<close>

subsection \<open>How a call ends and what it does to the metrics\<close>

lemma dispatch_unknown:
  "\<not> registered action \<Longrightarrow>
   dispatch env action parameters td m = (Inl (ValueError (''Unknown action: '' @ action)), m)"
  by (simp add: dispatch_def registered_def)

lemma execute_trade_metrics:
  "snd (execute_trade env parameters td m) = m \<or>
   snd (execute_trade env parameters td m) = m\<lparr>total_trades := total_trades m + 1\<rparr>"
  by (simp add: execute_trade_def execute_trade_body_def Let_def split: sum.splits)

lemma dispatch_registered:
  assumes "registered action"
  shows "\<exists>r m'. dispatch env action parameters td m = (Inr r, m') \<and>
           total_requests m' = total_requests m \<and>
           successful_trades m' = successful_trades m \<and>
           avg_response_time m' = avg_response_time m \<and>
           success_rate m' = success_rate m"
proof (cases "action = ''execute_trade''")
  case True
  obtain r m' where e: "execute_trade env parameters td m = (r, m')"
    by (cases "execute_trade env parameters td m")
  with execute_trade_metrics [of env parameters td m]
  have "m' = m \<or> m' = m\<lparr>total_trades := total_trades m + 1\<rparr>"
    by simp
  then show ?thesis using True e by (auto simp: dispatch_def)
next
  case False
  then show ?thesis using assms
    by (auto simp: dispatch_def registered_def)
qed

lemma update_metrics_ok:
  "total_requests m \<noteq> 0 \<Longrightarrow>
   \<exists>m'. update_metrics env r m = Inr m' \<and>
        total_requests m' = total_requests m \<and>
        total_trades m' = total_trades m \<and>
        successful_trades m' = successful_trades m + (if result_success r then 1 else 0) \<and>
        success_rate m' = real_of_int (successful_trades m') / real_of_int (total_requests m') \<and>
        avg_response_time m' =
          (avg_response_time m * real_of_int (total_requests m - 1) + elapsed env) /
          real_of_int (total_requests m)"
  by (simp add: update_metrics_def Let_def result_success_def)

lemma execute_action_registered:
  assumes reg: "registered action" and nz: "total_requests (performance_metrics self) \<noteq> - 1"
  shows "\<exists>r self'. execute_action env self action parameters td = (r, self') \<and>
           fst (dispatch env action parameters td
                  ((performance_metrics self)\<lparr>total_requests := total_requests (performance_metrics self) + 1\<rparr>)) = Inr r \<and>
           total_requests (performance_metrics self') = total_requests (performance_metrics self) + 1 \<and>
           successful_trades (performance_metrics self') =
             successful_trades (performance_metrics self) + (if result_success r then 1 else 0) \<and>
           success_rate (performance_metrics self') =
             real_of_int (successful_trades (performance_metrics self')) /
             real_of_int (total_requests (performance_metrics self')) \<and>
           avg_response_time (performance_metrics self') =
             (avg_response_time (performance_metrics self) * real_of_int (total_requests (performance_metrics self))
                + elapsed env) / real_of_int (total_requests (performance_metrics self) + 1)"
proof -
  define m1 where "m1 = (performance_metrics self)\<lparr>total_requests := total_requests (performance_metrics self) + 1\<rparr>"
  from dispatch_registered [OF reg, of env parameters td m1]
  obtain r m2 where d: "dispatch env action parameters td m1 = (Inr r, m2)"
    and f: "total_requests m2 = total_requests m1" "successful_trades m2 = successful_trades m1"
       "avg_response_time m2 = avg_response_time m1" "success_rate m2 = success_rate m1"
    by blast
  have "total_requests m2 \<noteq> 0" using f nz by (simp add: m1_def)
  from update_metrics_ok [OF this, of env r]
  obtain m3 where u: "update_metrics env r m2 = Inr m3"
    and g: "total_requests m3 = total_requests m2"
       "successful_trades m3 = successful_trades m2 + (if result_success r then 1 else 0)"
       "success_rate m3 = real_of_int (successful_trades m3) / real_of_int (total_requests m3)"
       "avg_response_time m3 =
          (avg_response_time m2 * real_of_int (total_requests m2 - 1) + elapsed env) /
          real_of_int (total_requests m2)"
    by blast
  have "execute_action env self action parameters td = (r, self\<lparr>performance_metrics := m3\<rparr>)"
    using d u by (simp add: execute_action_def try_block_def Let_def m1_def)
  then show ?thesis using d f g by (simp add: m1_def)
qed

lemma execute_action_unknown:
  assumes "\<not> registered action"
  shows "execute_action env self action parameters td =
           (action_failure action (ValueError (''Unknown action: '' @ action)),
            self\<lparr>performance_metrics :=
              (performance_metrics self)\<lparr>total_requests := total_requests (performance_metrics self) + 1\<rparr>\<rparr>)"
  using assms by (simp add: execute_action_def try_block_def Let_def dispatch_unknown)


lemma handler_failure_fields:
  "map_of (handler_failure e) ''success'' = Some (PBool False)"
  "map_of (handler_failure e) ''confidence'' = Some (PFloat 0)"
  "map_of (handler_failure e) ''error'' = Some (PStr (str_exn e))"
  "map_of (handler_failure e) ''action'' = None"
  by (simp_all add: handler_failure_def)

lemma action_failure_fields:
  "map_of (action_failure a e) ''success'' = Some (PBool False)"
  "map_of (action_failure a e) ''confidence'' = Some (PFloat 0)"
  "map_of (action_failure a e) ''error'' = Some (PStr (str_exn e))"
  "map_of (action_failure a e) ''action'' = Some (PStr a)"
  by (simp_all add: action_failure_def)

lemma array_times_dict_raises:
  "allocations \<noteq> [] \<Longrightarrow> \<exists>e. array_times_dict allocations expected_returns = Inl e"
  by (cases allocations) (simp_all add: array_times_dict_def)

lemma optimize_body_raises: "\<exists>e. optimize_portfolio_body env p td = Inl e"
proof (cases "model_forward env")
  case (Inl e)
  then show ?thesis by (simp add: optimize_portfolio_body_def bindE_def)
next
  case (Inr out)
  have ne: "map (fw_allocations out) [0..<num_assets] \<noteq> []"
    by (simp add: num_assets_def)
  show ?thesis
  proof (cases "calculate_expected_returns (expected_draw env 0)
                  (dict_get p ''assets'' (PList []))")
    case (Inl e)
    with Inr show ?thesis by (simp add: optimize_portfolio_body_def bindE_def)
  next
    case returns: (Inr expected_returns)
    from array_times_dict_raises [OF ne, of expected_returns] obtain e where
      "array_times_dict (map (fw_allocations out) [0..<num_assets]) expected_returns = Inl e"
      by blast
    with Inr returns show ?thesis
      by (simp add: optimize_portfolio_body_def bindE_def Let_def)
  qed
qed

lemma rebalance_body_fields:
  assumes "rebalance_portfolio_body p td = Inr d"
  shows "map_of d ''success'' = Some (PBool True)"
    "map_of d ''action'' = Some (PStr ''rebalance'')"
    "map_of d ''error'' = None"
    "map_of d ''confidence'' = Some (PFloat 0.85)"
  using assms by (auto simp: rebalance_portfolio_body_def bindE_def Let_def split: sum.splits)

lemma risk_body_fields:
  assumes "analyze_risk_body env p td = Inr d"
  shows "map_of d ''success'' = Some (PBool True)"
    "map_of d ''action'' = Some (PStr ''risk_analysis'')"
    "map_of d ''error'' = None"
    "map_of d ''confidence'' = Some (PFloat 0.90)"
  using assms by (auto simp: analyze_risk_body_def bindE_def Let_def split: sum.splits)

lemma yield_body_fields:
  assumes "predict_yield_body env p td = Inr d"
  shows "map_of d ''success'' = Some (PBool True)"
    "map_of d ''action'' = Some (PStr ''yield_prediction'')"
    "map_of d ''error'' = None"
    "map_of d ''confidence'' = Some (PFloat 0.80)"
  using assms by (auto simp: predict_yield_body_def bindE_def Let_def split: sum.splits)

lemma trade_body_raises:
  "trade_prelude p = Inl e \<Longrightarrow> execute_trade env p td m = (handler_failure e, m)"
  by (simp add: execute_trade_def execute_trade_body_def catch_handler_def Let_def)

lemma trade_body_fails:
  "trade_prelude p = Inr v \<Longrightarrow> \<not> random_draw env > 0.05 \<Longrightarrow>
   execute_trade env p td m =
     ([(''success'', PBool False),
       (''error'', PStr ''Trade execution failed - insufficient liquidity''),
       (''confidence'', PFloat 0)], m\<lparr>total_trades := total_trades m + 1\<rparr>)"
  by (simp add: execute_trade_def execute_trade_body_def catch_handler_def Let_def)

lemma trade_body_succeeds:
  assumes "trade_prelude p = Inr v" "random_draw env > 0.05"
    and "execute_trade env p td m = (d, m')"
  shows "map_of d ''success'' = Some (PBool True)"
    "map_of d ''action'' = Some (PStr ''execute_trade'')"
    "map_of d ''error'' = None"
    "map_of d ''confidence'' = Some (PFloat 0.95)"
    "m' = m\<lparr>total_trades := total_trades m + 1\<rparr>"
  using assms by (auto simp: execute_trade_def execute_trade_body_def catch_handler_def Let_def)


lemma registered_cases:
  assumes "registered action"
  shows "action = ''optimize_portfolio'' \<or> action = ''rebalance'' \<or>
         action = ''risk_analysis'' \<or> action = ''yield_prediction'' \<or>
         action = ''execute_trade''"
  using assms by (simp add: registered_def)

lemma handler_exception_simps:
  "handler_exception env ''optimize_portfolio'' p td =
     (case optimize_portfolio_body env p td of Inl e \<Rightarrow> Some e | Inr d \<Rightarrow> None)"
  "handler_exception env ''rebalance'' p td =
     (case rebalance_portfolio_body p td of Inl e \<Rightarrow> Some e | Inr d \<Rightarrow> None)"
  "handler_exception env ''risk_analysis'' p td =
     (case analyze_risk_body env p td of Inl e \<Rightarrow> Some e | Inr d \<Rightarrow> None)"
  "handler_exception env ''yield_prediction'' p td =
     (case predict_yield_body env p td of Inl e \<Rightarrow> Some e | Inr d \<Rightarrow> None)"
  "handler_exception env ''execute_trade'' p td =
     (case trade_prelude p of Inl e \<Rightarrow> Some e | Inr v \<Rightarrow> None)"
  by (simp_all add: handler_exception_def bindE_def split: sum.splits)

lemma dispatch_simps:
  "dispatch env ''optimize_portfolio'' p td m = (Inr (optimize_portfolio env p td), m)"
  "dispatch env ''rebalance'' p td m = (Inr (rebalance_portfolio p td), m)"
  "dispatch env ''risk_analysis'' p td m = (Inr (analyze_risk env p td), m)"
  "dispatch env ''yield_prediction'' p td m = (Inr (predict_yield env p td), m)"
  "dispatch env ''execute_trade'' p td m =
     (Inr (fst (execute_trade env p td m)), snd (execute_trade env p td m))"
  by (simp_all add: dispatch_def split: prod.splits)

lemma dispatch_handler_raises:
  assumes "registered action" and "handler_exception env action p td = Some e"
  shows "fst (dispatch env action p td m) = Inr (handler_failure e)"
  using registered_cases [OF assms(1)]
proof (elim disjE)
  assume 1: "action = ''optimize_portfolio''"
  from assms(2) show ?thesis unfolding 1
    by (simp add: handler_exception_simps dispatch_simps optimize_portfolio_def
        catch_handler_def split: sum.splits)
next
  assume 2: "action = ''rebalance''"
  from assms(2) show ?thesis unfolding 2
    by (simp add: handler_exception_simps dispatch_simps rebalance_portfolio_def
        catch_handler_def split: sum.splits)
next
  assume 3: "action = ''risk_analysis''"
  from assms(2) show ?thesis unfolding 3
    by (simp add: handler_exception_simps dispatch_simps analyze_risk_def
        catch_handler_def split: sum.splits)
next
  assume 4: "action = ''yield_prediction''"
  from assms(2) show ?thesis unfolding 4
    by (simp add: handler_exception_simps dispatch_simps predict_yield_def
        catch_handler_def split: sum.splits)
next
  assume 5: "action = ''execute_trade''"
  from assms(2) show ?thesis unfolding 5
    by (simp add: handler_exception_simps dispatch_simps trade_body_raises
        split: sum.splits)
qed

lemma dispatch_handler_returns:
  assumes "registered action" and "handler_exception env action p td = None"
  shows "\<exists>r. fst (dispatch env action p td m) = Inr r \<and>
          (if action = ''execute_trade'' \<and> \<not> random_draw env > 0.05
           then r = [(''success'', PBool False),
                     (''error'', PStr ''Trade execution failed - insufficient liquidity''),
                     (''confidence'', PFloat 0)]
           else map_of r ''success'' = Some (PBool True) \<and>
                map_of r ''action'' = Some (PStr action) \<and>
                map_of r ''error'' = None \<and>
                (\<exists>c. map_of r ''confidence'' = Some (PFloat c) \<and> 0 \<le> c \<and> c \<le> 1))"
  using registered_cases [OF assms(1)]
proof (elim disjE)
  assume 1: "action = ''optimize_portfolio''"
  from optimize_body_raises [of env p td] obtain e where
    "optimize_portfolio_body env p td = Inl e" by blast
  with assms(2) show ?thesis unfolding 1 by (simp add: handler_exception_simps)
next
  assume 2: "action = ''rebalance''"
  from assms(2) obtain d where d: "rebalance_portfolio_body p td = Inr d"
    unfolding 2 by (auto simp: handler_exception_simps split: sum.splits)
  have "\<exists>c. map_of d ''confidence'' = Some (PFloat c) \<and> 0 \<le> c \<and> c \<le> 1"
    using rebalance_body_fields(4) [OF d] by (intro exI [of _ "0.85"]) simp
  with rebalance_body_fields(1-3) [OF d] d show ?thesis unfolding 2
    by (simp add: dispatch_simps rebalance_portfolio_def catch_handler_def)
next
  assume 3: "action = ''risk_analysis''"
  from assms(2) obtain d where d: "analyze_risk_body env p td = Inr d"
    unfolding 3 by (auto simp: handler_exception_simps split: sum.splits)
  have "\<exists>c. map_of d ''confidence'' = Some (PFloat c) \<and> 0 \<le> c \<and> c \<le> 1"
    using risk_body_fields(4) [OF d] by (intro exI [of _ "0.90"]) simp
  with risk_body_fields(1-3) [OF d] d show ?thesis unfolding 3
    by (simp add: dispatch_simps analyze_risk_def catch_handler_def)
next
  assume 4: "action = ''yield_prediction''"
  from assms(2) obtain d where d: "predict_yield_body env p td = Inr d"
    unfolding 4 by (auto simp: handler_exception_simps split: sum.splits)
  have "\<exists>c. map_of d ''confidence'' = Some (PFloat c) \<and> 0 \<le> c \<and> c \<le> 1"
    using yield_body_fields(4) [OF d] by (intro exI [of _ "0.80"]) simp
  with yield_body_fields(1-3) [OF d] d show ?thesis unfolding 4
    by (simp add: dispatch_simps predict_yield_def catch_handler_def)
next
  assume 5: "action = ''execute_trade''"
  from assms(2) obtain v where v: "trade_prelude p = Inr v"
    unfolding 5 by (auto simp: handler_exception_simps split: sum.splits)
  show ?thesis
  proof (cases "random_draw env > 0.05")
    case True
    obtain d m' where e: "execute_trade env p td m = (d, m')"
      by (cases "execute_trade env p td m")
    have "\<exists>c. map_of d ''confidence'' = Some (PFloat c) \<and> 0 \<le> c \<and> c \<le> 1"
      using trade_body_succeeds(4) [OF v True e] by (intro exI [of _ "0.95"]) simp
    with trade_body_succeeds(1-3) [OF v True e] e True show ?thesis unfolding 5
      by (simp add: dispatch_simps)
  next
    case False
    from trade_body_fails [OF v False] False show ?thesis unfolding 5
      by (simp add: dispatch_simps)
  qed
qed

lemma execute_action_result_cases:
  "(\<exists>e. fst (execute_action env self action p td) = action_failure action e) \<or>
   (registered action \<and>
    fst (dispatch env action p td
      ((performance_metrics self)\<lparr>total_requests := total_requests (performance_metrics self) + 1\<rparr>))
      = Inr (fst (execute_action env self action p td)))"
proof (cases "registered action")
  case False
  from execute_action_unknown [OF False] show ?thesis by (metis fst_conv)
next
  case True
  then show ?thesis
    by (auto simp: execute_action_def try_block_def Let_def split: prod.splits sum.splits)
qed

lemma as_num_num_val [simp]: "as_num (num_val x) = Some x"
  by (cases x) simp_all

lemma float_limit_bounds:
  "(2::int) ^ 53 < float_limit" "(2::int) ^ 54 < float_limit" "(2::int) ^ 170 < float_limit"
  by (simp_all add: float_limit_def)

lemma float_of_int_ok: "\<bar>i\<bar> < float_limit \<Longrightarrow> float_of_int i = Inr (real_of_int i)"
  by (simp add: float_of_int_def)

lemma float_of_int_small: "\<bar>i\<bar> \<le> 2 ^ 53 \<Longrightarrow> float_of_int i = Inr (real_of_int i)"
  using float_limit_bounds(1) by (simp add: float_of_int_def)

lemma bounded_by_mono: "bounded_by A x \<Longrightarrow> A \<le> B \<Longrightarrow> bounded_by B x"
  by (cases x) (simp_all add: bounded_by_def)

lemma num_float_bounded:
  assumes "bounded_by B x" "B < float_limit"
  shows "\<exists>r. num_float x = Inr r"
  using assms by (cases x) (simp_all add: bounded_by_def float_of_int_ok)

lemma num_abs_bounded: "bounded_by B x \<Longrightarrow> bounded_by B (num_abs x)"
  by (cases x) (simp_all add: bounded_by_def)

lemma num_sub_bounded:
  assumes "bounded_by A x" "bounded_by B y" "A < float_limit" "B < float_limit"
  shows "\<exists>z. num_sub x y = Inr z \<and> bounded_by (A + B) z"
proof -
  from num_float_bounded [OF assms(1,3)] num_float_bounded [OF assms(2,4)]
  obtain r s where f: "num_float x = Inr r" "num_float y = Inr s" by blast
  show ?thesis
  proof (cases x)
    case (NI a)
    show ?thesis
    proof (cases y)
      case (NI b)
      with \<open>x = NI a\<close> assms(1,2) show ?thesis by (simp add: bounded_by_def)
    next
      case (NF t)
      with \<open>x = NI a\<close> f show ?thesis by (simp add: bounded_by_def bindE_def)
    qed
  next
    case (NF t)
    with f show ?thesis by (cases y) (simp_all add: bounded_by_def bindE_def)
  qed
qed

lemma num_add_bounded:
  assumes "bounded_by A x" "bounded_by B y" "A < float_limit" "B < float_limit"
  shows "\<exists>z. num_add x y = Inr z \<and> bounded_by (A + B) z"
proof -
  from num_float_bounded [OF assms(1,3)] num_float_bounded [OF assms(2,4)]
  obtain r s where f: "num_float x = Inr r" "num_float y = Inr s" by blast
  show ?thesis
  proof (cases x)
    case (NI a)
    show ?thesis
    proof (cases y)
      case (NI b)
      with \<open>x = NI a\<close> assms(1,2) show ?thesis by (simp add: bounded_by_def)
    next
      case (NF t)
      with \<open>x = NI a\<close> f show ?thesis by (simp add: bounded_by_def bindE_def)
    qed
  next
    case (NF t)
    with f show ?thesis by (cases y) (simp_all add: bounded_by_def bindE_def)
  qed
qed

lemma num_mul_bounded:
  assumes "bounded_by A x" "bounded_by B y" "A < float_limit" "B < float_limit"
  shows "\<exists>z. num_mul x y = Inr z \<and> bounded_by (A * B) z"
proof -
  from num_float_bounded [OF assms(1,3)] num_float_bounded [OF assms(2,4)]
  obtain r s where f: "num_float x = Inr r" "num_float y = Inr s" by blast
  show ?thesis
  proof (cases x)
    case (NI a)
    show ?thesis
    proof (cases y)
      case (NI b)
      from \<open>x = NI a\<close> NI assms(1,2) have "\<bar>a\<bar> \<le> A" "\<bar>b\<bar> \<le> B" by (simp_all add: bounded_by_def)
      then have "\<bar>a\<bar> * \<bar>b\<bar> \<le> A * B" by (intro mult_mono) simp_all
      with \<open>x = NI a\<close> NI show ?thesis by (simp add: bounded_by_def abs_mult)
    next
      case (NF t)
      with \<open>x = NI a\<close> f show ?thesis by (simp add: bounded_by_def bindE_def)
    qed
  next
    case (NF t)
    with f show ?thesis by (cases y) (simp_all add: bounded_by_def bindE_def)
  qed
qed

lemma small_number_bounded:
  assumes "small_number v"
  obtains x where "as_num v = Some x" "bounded_by (2 ^ 53) x"
  using assms by (auto simp: small_number_def bounded_by_def split: option.splits pynum.splits)


lemma py_sub_small:
  assumes "small_number a" "small_number b"
  shows "\<exists>z. py_sub a b = Inr (num_val z) \<and> bounded_by (2 ^ 54) z"
proof -
  from assms(1) obtain x where x: "as_num a = Some x" "bounded_by (2 ^ 53) x"
    by (rule small_number_bounded)
  from assms(2) obtain y where y: "as_num b = Some y" "bounded_by (2 ^ 53) y"
    by (rule small_number_bounded)
  from num_sub_bounded [OF x(2) y(2) float_limit_bounds(1) float_limit_bounds(1)]
  obtain z where "num_sub x y = Inr z" "bounded_by (2 ^ 53 + 2 ^ 53) z" by blast
  then show ?thesis using x(1) y(1)
    by (intro exI [of _ z]) (simp add: py_sub_def bindE_def)
qed

lemma py_mul_small:
  assumes "bounded_by (2 ^ 54) z" "small_number b"
  shows "\<exists>w. py_mul (num_val z) b = Inr (num_val w) \<and> bounded_by (2 ^ 107) w"
proof -
  from assms(2) obtain y where y: "as_num b = Some y" "bounded_by (2 ^ 53) y"
    by (rule small_number_bounded)
  from num_mul_bounded [OF assms(1) y(2) float_limit_bounds(2) float_limit_bounds(1)]
  obtain w where "num_mul z y = Inr w" "bounded_by (2 ^ 54 * 2 ^ 53) w" by blast
  then show ?thesis using y(1)
    by (intro exI [of _ w]) (simp add: py_mul_def bindE_def)
qed

lemma rebalance_step_valid:
  assumes "small_number target_pct" "small_number (dict_get cur asset (PInt 0))"
    "small_number total_value" "is_number (dict_get p ''min_trade_size'' (PInt 1000))"
    and "bounded_by C total_trade_value" "0 \<le> C" "C + 2 ^ 107 < float_limit"
  shows "\<exists>trades' total'. rebalance_step p (PDict cur) total_value (asset, target_pct)
                              (trades, total_trade_value) = Inr (trades', total') \<and>
                            bounded_by (C + 2 ^ 107) total'"
proof -
  from py_sub_small [OF assms(1,2)] obtain z where
    z: "py_sub target_pct (dict_get cur asset (PInt 0)) = Inr (num_val z)" "bounded_by (2 ^ 54) z"
    by blast
  from py_mul_small [OF z(2) assms(3)] obtain w where
    w: "py_mul (num_val z) total_value = Inr (num_val w)" "bounded_by (2 ^ 107) w"
    by blast
  from assms(4) obtain mn where mn: "as_num (dict_get p ''min_trade_size'' (PInt 1000)) = Some mn"
    by (auto simp: is_number_def)
  have aw: "bounded_by (2 ^ 107) (num_abs w)" using w(2) by (rule num_abs_bounded)
  have c: "C < float_limit" "(2::int) ^ 107 < float_limit" using assms(6,7) by simp_all
  from num_add_bounded [OF assms(5) aw c]
  obtain t where t: "num_add total_trade_value (num_abs w) = Inr t" "bounded_by (C + 2 ^ 107) t"
    by blast
  have keep: "bounded_by (C + 2 ^ 107) total_trade_value"
    using assms(5) by (rule bounded_by_mono) simp
  show ?thesis
    using z(1) w(1) mn t keep
    by (simp add: rebalance_step_def Let_def bindE_def py_abs_def num_gt_def)
qed

lemma rebalance_loop_valid:
  assumes "numeric_targets items cur" "small_number total_value"
    "is_number (dict_get p ''min_trade_size'' (PInt 1000))"
    and "bounded_by C total_trade_value" "0 \<le> C"
    "C + int (length items) * 2 ^ 107 < float_limit"
  shows "\<exists>trades' total'. rebalance_loop p (PDict cur) total_value items
                              (trades, total_trade_value) = Inr (trades', total') \<and>
                            bounded_by (C + int (length items) * 2 ^ 107) total'"
  using assms(1,4,5,6)
proof (induction items arbitrary: trades total_trade_value C)
  case Nil
  then show ?case by simp
next
  case (Cons item items)
  obtain asset target_pct where item: "item = (asset, target_pct)" by (cases item)
  from Cons.prems(1) item have a: "small_number target_pct"
    "small_number (dict_get cur asset (PInt 0))"
    and rest: "numeric_targets items cur" by simp_all
  have len: "C + int (length (item # items)) * 2 ^ 107 =
             (C + 2 ^ 107) + int (length items) * 2 ^ 107"
    by (simp add: algebra_simps)
  have step_ok: "C + 2 ^ 107 < float_limit"
  proof -
    have "(0::int) \<le> int (length items) * 2 ^ 107" by simp
    with Cons.prems(4) show ?thesis unfolding len by linarith
  qed
  from rebalance_step_valid [OF a assms(2,3) Cons.prems(2,3) step_ok, of trades]
  obtain trades1 total1 where
    s: "rebalance_step p (PDict cur) total_value (asset, target_pct) (trades, total_trade_value)
          = Inr (trades1, total1)"
    and b: "bounded_by (C + 2 ^ 107) total1" by blast
  have nn: "0 \<le> C + 2 ^ 107" using Cons.prems(3) by simp
  from Cons.IH [OF rest b nn, of trades1] Cons.prems(4) len
  obtain trades' total' where
    "rebalance_loop p (PDict cur) total_value items (trades1, total1) = Inr (trades', total')"
    "bounded_by (C + 2 ^ 107 + int (length items) * 2 ^ 107) total'"
    by auto
  with s item len show ?case by (simp add: add.assoc)
qed

lemma valid_rebalance_returns:
  assumes "valid_rebalance p td"
  shows "\<exists>d. rebalance_portfolio_body p td = Inr d"
proof -
  from assms obtain t where td: "td = Some t"
    by (auto simp: valid_rebalance_def split: option.splits)
  define total_value where "total_value = dict_get t ''total_value_usd'' (PInt 0)"
  define current where "current = dict_get t ''current_allocations'' (PDict [])"
  from assms td have tv: "small_number total_value"
    and mn: "is_number (dict_get p ''min_trade_size'' (PInt 1000))"
    by (simp_all add: valid_rebalance_def total_value_def)
  from assms td obtain items where items:
    "dict_get p ''target_allocations'' (PDict []) = PDict items"
    by (auto simp: valid_rebalance_def split: pyval.splits)
  from assms td items have len: "int (length items) < 2 ^ 63"
    by (simp add: valid_rebalance_def)
  have lim: "0 + int (length items) * 2 ^ 107 < float_limit"
  proof -
    from len have "int (length items) * 2 ^ 107 \<le> 2 ^ 63 * 2 ^ 107"
      by (intro mult_right_mono) simp_all
    also have "\<dots> = (2::int) ^ 170" by simp
    also note float_limit_bounds(3)
    finally show ?thesis by simp
  qed
  have z: "bounded_by 0 (NI 0)" by (simp add: bounded_by_def)
  have "\<exists>trades total'. rebalance_loop p current total_value items ([], NI 0) =
          Inr (trades, total') \<and> bounded_by (0 + int (length items) * 2 ^ 107) total'"
  proof (cases current)
    case (PDict cur)
    with assms td items have "numeric_targets items cur"
      by (simp add: valid_rebalance_def current_def)
    from rebalance_loop_valid [OF this tv mn z _ lim, of "[]"] PDict show ?thesis by simp
  qed (use assms td items z in \<open>simp_all add: valid_rebalance_def current_def\<close>)
  then obtain trades total' where
    loop: "rebalance_loop p current total_value items ([], NI 0) = Inr (trades, total')"
    and b: "bounded_by (0 + int (length items) * 2 ^ 107) total'" by blast
  from tv obtain v where v: "as_num total_value = Some v" "bounded_by (2 ^ 53) v"
    by (rule small_number_bounded)
  from num_float_bounded [OF v(2) float_limit_bounds(1)] obtain r where "num_float v = Inr r"
    by blast
  then have gas: "\<exists>g. py_mul (PFloat x) total_value = Inr g" for x
    using v(1) by (simp add: py_mul_def bindE_def)
  from num_float_bounded [OF b lim] obtain r' where "num_float total' = Inr r'" by blast
  then have slip: "\<exists>s. num_mul total' (NF y) = Inr s" for y
    by (cases total') (simp_all add: bindE_def)
  from gas [of "real (length trades) * 0.01"] obtain g where
    g: "py_mul (PFloat (real (length trades) * 0.01)) total_value = Inr g" by blast
  from slip [of "0.005"] obtain sl where sl: "num_mul total' (NF 0.005) = Inr sl" by blast
  show ?thesis using td items loop g sl
    by (simp add: rebalance_portfolio_body_def Let_def bindE_def opt_get_def
        total_value_def [symmetric] current_def [symmetric])
qed

lemma valid_trade_returns:
  assumes "valid_trade p"
  shows "\<exists>v. trade_prelude p = Inr v"
proof -
  define amount where "amount = dict_get p ''amount'' PNone"
  from assms obtain a r where a: "as_num amount = Some a" "num_float a = Inr r"
    by (auto simp: valid_trade_def convertible_def amount_def float_of_int_ok
        split: option.splits pynum.splits)
  from assms have "hashable (dict_get p ''asset'' PNone)" by (simp add: valid_trade_def)
  then obtain price where price: "get_current_price (dict_get p ''asset'' PNone) = Inr price"
    by (cases "dict_get p ''asset'' PNone") simp_all
  have mul: "py_mul amount (PFloat 0.001) = Inr (PFloat (r * 0.001))"
    using a by (cases a) (simp_all add: py_mul_def bindE_def)
  have sub: "py_sub amount (PFloat (r * 0.001)) = Inr (PFloat (r - r * 0.001))"
    using a by (cases a) (simp_all add: py_sub_def bindE_def)
  have add: "\<exists>c. py_add amount (PInt 50) = Inr c"
    using a by (cases a) (simp_all add: py_add_def bindE_def float_of_int_small)
  then obtain c where "py_add amount (PInt 50) = Inr c" by blast
  with price mul sub show ?thesis
    by (simp add: trade_prelude_def Let_def bindE_def amount_def [symmetric])
qed

lemma expected_returns_loop_hashable:
  "list_all hashable items \<Longrightarrow> \<exists>r. expected_returns_loop draw items acc = Inr r"
  by (induction items arbitrary: acc) (simp_all add: py_setitem_def)

lemma expected_returns_of_names:
  "\<exists>r. calculate_expected_returns draw (PList (map (\<lambda>a. PStr (fst a)) allocations)) = Inr r"
proof -
  have "list_all hashable (map (\<lambda>a. PStr (fst a)) allocations)"
    by (induction allocations) simp_all
  from expected_returns_loop_hashable [OF this, of draw "[]"]
  show ?thesis by (simp add: calculate_expected_returns_def bindE_def)
qed

lemma key_set_not_empty: "key_set d k v \<noteq> []"
  by (cases d) simp_all

lemma yield_loop_valid:
  assumes "list_all hashable items" and "py_truediv (PInt 365) th = Inr q"
  shows "\<exists>preds. yield_loop env th k items acc = Inr preds \<and>
                 (items \<noteq> [] \<or> acc \<noteq> [] \<longrightarrow> preds \<noteq> [])"
  using assms(1)
proof (induction items arbitrary: k acc)
  case Nil
  then show ?case by simp
next
  case (Cons s items)
  from Cons.prems have h: "hashable s" and rest: "list_all hashable items" by simp_all
  from h obtain al where al: "get_strategy_allocations s = Inr al"
    by (simp add: get_strategy_allocations_def)
  from expected_returns_of_names [of "expected_draw env k" al] obtain r where
    r: "calculate_expected_returns (expected_draw env k) (PList (map (\<lambda>a. PStr (fst a)) al)) = Inr r"
    by blast
  define acc' where "acc' = key_set acc s
     \<lparr>yp_annual_yield = weighted_return al r * q, yp_allocations = al\<rparr>"
  have ne: "acc' \<noteq> []" by (simp add: acc'_def key_set_not_empty)
  from Cons.IH [OF rest, of "Suc k" acc'] ne obtain preds where
    "yield_loop env th (Suc k) items acc' = Inr preds" "preds \<noteq> []" by auto
  with al r assms(2) h show ?case by (simp add: py_setitem_def acc'_def)
qed

lemma truediv_365:
  assumes "case as_num th of None \<Rightarrow> False | Some (NI n) \<Rightarrow> n \<noteq> 0 | Some (NF r) \<Rightarrow> r \<noteq> 0"
  shows "\<exists>q. py_truediv (PInt 365) th = Inr q"
proof (cases "as_num th")
  case None
  with assms show ?thesis by simp
next
  case (Some x)
  show ?thesis
  proof (cases x)
    case (NI n)
    with Some assms have n: "n \<noteq> 0" by simp
    then have "1 \<le> \<bar>real_of_int n\<bar>" by (simp add: abs_if)
    then have "\<bar>365 / real_of_int n\<bar> \<le> 365"
      by (simp add: field_simps abs_if split: if_splits)
    moreover have "(365::real) < real_of_int float_limit"
      using float_limit_bounds(1) by (simp add: float_limit_def)
    ultimately have "\<not> real_of_int float_limit \<le> \<bar>365 / real_of_int n\<bar>" by linarith
    with Some NI n show ?thesis by (simp add: py_truediv_def)
  next
    case (NF r)
    with Some assms have "r \<noteq> 0" by simp
    with Some NF show ?thesis
      by (simp add: py_truediv_def bindE_def float_of_int_small)
  qed
qed

lemma valid_yield_returns:
  assumes "valid_yield p"
  shows "\<exists>d. predict_yield_body env p td = Inr d"
proof -
  define strategies where "strategies = dict_get p ''strategies''
     (PList [PStr ''conservative'', PStr ''moderate'', PStr ''aggressive''])"
  define th where "th = dict_get p ''time_horizon'' (PInt 365)"
  from assms obtain items where items: "py_iter strategies = Inr items"
    "items \<noteq> []" "list_all hashable items"
    by (auto simp: valid_yield_def strategies_def split: sum.splits)
  from assms have "case as_num th of None \<Rightarrow> False | Some (NI n) \<Rightarrow> n \<noteq> 0 | Some (NF r) \<Rightarrow> r \<noteq> 0"
    by (simp add: valid_yield_def th_def)
  from truediv_365 [OF this] obtain q where q: "py_truediv (PInt 365) th = Inr q" by blast
  from yield_loop_valid [OF items(3) q, of env 0 "[]"] items(2) obtain preds where
    preds: "yield_loop env th 0 items [] = Inr preds" "preds \<noteq> []" by auto
  from preds(2) obtain best where "best_strategy_of preds = Inr best"
    by (cases preds) (simp_all add: best_strategy_of_def)
  with items(1) preds(1) show ?thesis
    by (simp add: predict_yield_body_def Let_def bindE_def strategies_def [symmetric]
        th_def [symmetric])
qed


lemma risk_loop_valid:
  assumes "list_all hashable items" and "as_num th = Some (NI n)"
    and "0 \<le> n" and "2 * n \<le> sample_limit"
  shows "\<exists>rm. risk_loop env th items acc = Inr rm"
  using assms(1)
proof (induction items arbitrary: acc)
  case Nil
  then show ?case by simp
next
  case (Cons a items)
  from Cons.prems have h: "hashable a" and rest: "list_all hashable items" by simp_all
  have days: "py_mul th (PInt 2) = Inr (PInt (n * 2))"
    using assms(2) by (simp add: py_mul_def bindE_def)
  show ?case
  proof (cases "n = 0")
    case True
    with days Cons.IH [OF rest, of acc] show ?thesis
      by (simp add: historical_returns_stats_def)
  next
    case False
    with assms(3,4) have "\<not> n * 2 < 0" "n * 2 \<noteq> 0" "n * 2 \<le> sample_limit" by simp_all
    then have st: "historical_returns_stats env a (PInt (n * 2)) =
                   Inr (Some (historical_stats env a (nat (n * 2))))"
      by (simp add: historical_returns_stats_def)
    from Cons.IH [OF rest, of "key_set acc a (historical_stats env a (nat (n * 2)))"]
    show ?thesis using days st h by (simp add: py_setitem_def)
  qed
qed

lemma convertible_times_float:
  assumes "convertible a"
  shows "\<exists>r. py_mul a (PFloat v) = Inr (PFloat r)"
proof -
  from assms obtain x r where "as_num a = Some x" "num_float x = Inr r"
    by (auto simp: convertible_def float_of_int_ok split: option.splits pynum.splits)
  then show ?thesis by (cases x) (simp_all add: py_mul_def bindE_def)
qed

lemma num_plus_float:
  assumes "bounded_by 0 pv"
  shows "\<exists>r. num_plus pv (PFloat y) = Inr (NF r)"
  using assms
  by (cases pv) (simp_all add: num_plus_def bounded_by_def bindE_def float_of_int_small)

lemma portfolio_var_loop_valid:
  assumes "list_all (\<lambda>kv. convertible (snd kv)) items" and "bounded_by 0 pv"
  shows "\<exists>pv'. portfolio_var_loop rm items pv = Inr pv' \<and> bounded_by 0 pv'"
  using assms
proof (induction items arbitrary: pv)
  case Nil
  then show ?case by simp
next
  case (Cons item items)
  from Cons.prems have c: "convertible (snd item)"
    and rest: "list_all (\<lambda>kv. convertible (snd kv)) items" by simp_all
  show ?case
  proof (cases "key_lookup rm (PStr (fst item))")
    case None
    with Cons.IH [OF rest Cons.prems(2)] show ?thesis by simp
  next
    case (Some st)
    from convertible_times_float [OF c, of "st_var_95 st"] obtain r where
      r: "py_mul (snd item) (PFloat (st_var_95 st)) = Inr (PFloat r)" by blast
    from num_plus_float [OF Cons.prems(2), of r] obtain r' where
      r': "num_plus pv (PFloat r) = Inr (NF r')" by blast
    have "bounded_by 0 (NF r')" by (simp add: bounded_by_def)
    from Cons.IH [OF rest this] Some r r' show ?thesis by simp
  qed
qed

lemma valid_risk_returns:
  assumes "valid_risk p td"
  shows "\<exists>d. analyze_risk_body env p td = Inr d"
proof -
  define assets where "assets = dict_get p ''assets'' (PList [])"
  define th where "th = dict_get p ''time_horizon'' (PInt 30)"
  from assms obtain t where td: "td = Some t"
    by (auto simp: valid_risk_def split: option.splits)
  from assms td obtain cur where cur: "dict_get t ''current_allocations'' (PDict []) = PDict cur"
    "list_all (\<lambda>kv. convertible (snd kv)) cur"
    by (auto simp: valid_risk_def split: pyval.splits)
  from assms td obtain items where items: "py_iter assets = Inr items" "list_all hashable items"
    by (auto simp: valid_risk_def assets_def split: sum.splits)
  from assms td obtain n where n: "as_num th = Some (NI n)" "0 \<le> n" "2 * n \<le> sample_limit"
    by (auto simp: valid_risk_def th_def split: option.splits pynum.splits)
  from risk_loop_valid [OF items(2) n, of env "[]"] obtain rm where
    rm: "risk_loop env th items [] = Inr rm" by blast
  have z: "bounded_by 0 (NI 0)" by (simp add: bounded_by_def)
  from portfolio_var_loop_valid [OF cur(2) z, of rm] obtain pv where
    pv: "portfolio_var_loop rm cur (NI 0) = Inr pv" "bounded_by 0 pv" by blast
  have "(0::int) < float_limit" using float_limit_bounds(1) by simp
  from num_float_bounded [OF pv(2) this] obtain r where r: "num_float pv = Inr r" by blast
  show ?thesis using td cur(1) items(1) rm pv(1) r
    by (simp add: analyze_risk_body_def Let_def bindE_def opt_get_def
        calculate_portfolio_var_def assets_def [symmetric] th_def [symmetric])
qed

lemma valid_request_simps:
  "valid_request ''optimize_portfolio'' p td = False"
  "valid_request ''rebalance'' p td = valid_rebalance p td"
  "valid_request ''risk_analysis'' p td = valid_risk p td"
  "valid_request ''yield_prediction'' p td = valid_yield p"
  "valid_request ''execute_trade'' p td = valid_trade p"
  by (simp_all add: valid_request_def)

lemma valid_request_registered: "valid_request action p td \<Longrightarrow> registered action"
  by (simp add: valid_request_def registered_def split: if_splits)

lemma valid_request_returns:
  assumes "valid_request action p td"
  shows "handler_exception env action p td = None"
  using registered_cases [OF valid_request_registered [OF assms]]
proof (elim disjE)
  assume 1: "action = ''optimize_portfolio''"
  from assms show ?thesis unfolding 1 by (simp add: valid_request_simps)
next
  assume 2: "action = ''rebalance''"
  from assms have "valid_rebalance p td" unfolding 2 by (simp add: valid_request_simps)
  from valid_rebalance_returns [OF this] show ?thesis unfolding 2
    by (auto simp: handler_exception_simps)
next
  assume 3: "action = ''risk_analysis''"
  from assms have "valid_risk p td" unfolding 3 by (simp add: valid_request_simps)
  from valid_risk_returns [OF this, of env] show ?thesis unfolding 3
    by (auto simp: handler_exception_simps)
next
  assume 4: "action = ''yield_prediction''"
  from assms have "valid_yield p" unfolding 4 by (simp add: valid_request_simps)
  from valid_yield_returns [OF this, of env td] show ?thesis unfolding 4
    by (auto simp: handler_exception_simps)
next
  assume 5: "action = ''execute_trade''"
  from assms have "valid_trade p" unfolding 5 by (simp add: valid_request_simps)
  from valid_trade_returns [OF this] show ?thesis unfolding 5
    by (auto simp: handler_exception_simps)
qed


lemma success_needs_registered:
  assumes "result_success (fst (execute_action env self action p td))"
  shows "registered action"
proof (rule ccontr)
  assume "\<not> registered action"
  from execute_action_unknown [OF this, of env self p td] assms show False
    by (simp add: result_success_def action_failure_def dict_get_def)
qed

lemma handler_failure_not_success: "\<not> result_success (handler_failure e)"
  by (simp add: result_success_def handler_failure_def dict_get_def)

lemma three_calls_metrics:
  assumes fresh: "performance_metrics self = initial_metrics"
    and c1: "execute_action e1 self a1 p1 t1 = (r1, s1)"
    and c2: "execute_action e2 s1 a2 p2 t2 = (r2, s2)"
    and c3: "execute_action e3 s2 a3 p3 t3 = (r3, s3)"
    and ok1: "result_success r1" and ok3: "result_success r3"
    and reg2: "registered a2"
    and exn2: "handler_exception e2 a2 p2 t2 = Some e"
  shows "r2 = handler_failure e \<and>
         total_requests (performance_metrics s3) = 3 \<and>
         successful_trades (performance_metrics s3) = 2 \<and>
         success_rate (performance_metrics s3) = 2 / 3"
proof -
  have reg1: "registered a1" using success_needs_registered [of e1 self a1 p1 t1] c1 ok1 by simp
  have reg3: "registered a3" using success_needs_registered [of e3 s2 a3 p3 t3] c3 ok3 by simp
  have m0: "total_requests (performance_metrics self) = 0"
    "successful_trades (performance_metrics self) = 0"
    by (simp_all add: fresh initial_metrics_def)
  from execute_action_registered [OF reg1, of self e1 p1 t1] c1 ok1 m0
  have m1: "total_requests (performance_metrics s1) = 1"
    "successful_trades (performance_metrics s1) = 1"
    by auto
  from execute_action_registered [OF reg2, of s1 e2 p2 t2] c2 m1
  have d2: "fst (dispatch e2 a2 p2 t2
              ((performance_metrics s1)\<lparr>total_requests := total_requests (performance_metrics s1) + 1\<rparr>)) = Inr r2"
    and t2: "total_requests (performance_metrics s2) = 2"
    and u2: "successful_trades (performance_metrics s2) = 1 + (if result_success r2 then 1 else 0)"
    by auto
  from d2 dispatch_handler_raises [OF reg2 exn2] have r2: "r2 = handler_failure e" by simp
  with u2 have s2: "successful_trades (performance_metrics s2) = 1"
    by (simp add: handler_failure_not_success)
  from execute_action_registered [OF reg3, of s2 e3 p3 t3] c3 ok3 t2 s2
  have "total_requests (performance_metrics s3) = 3"
    "successful_trades (performance_metrics s3) = 2"
    "success_rate (performance_metrics s3) =
       real_of_int (successful_trades (performance_metrics s3)) /
       real_of_int (total_requests (performance_metrics s3))"
    by auto
  with r2 show ?thesis by simp
qed

lemma run_calls_registered:
  assumes "list_all (\<lambda>c. registered (c_action c)) cs"
    and "0 \<le> total_requests (performance_metrics self)"
  shows "total_requests (performance_metrics (snd (run_calls self cs))) =
           total_requests (performance_metrics self) + int (length cs) \<and>
         avg_response_time (performance_metrics (snd (run_calls self cs))) *
           real_of_int (total_requests (performance_metrics (snd (run_calls self cs)))) =
           avg_response_time (performance_metrics self) *
             real_of_int (total_requests (performance_metrics self)) +
           sum_list (map (\<lambda>c. elapsed (c_env c)) cs)"
  using assms
proof (induction cs arbitrary: self)
  case Nil
  then show ?case by simp
next
  case (Cons c cs)
  from Cons.prems have reg: "registered (c_action c)"
    and rest: "list_all (\<lambda>c. registered (c_action c)) cs" by simp_all
  from Cons.prems(2) have nz: "total_requests (performance_metrics self) \<noteq> - 1" by simp
  from execute_action_registered [OF reg nz, of "c_env c" "c_parameters c" "c_treasury c"]
  obtain r self1 where
    x: "execute_action (c_env c) self (c_action c) (c_parameters c) (c_treasury c) = (r, self1)"
    and t: "total_requests (performance_metrics self1) = total_requests (performance_metrics self) + 1"
    and a: "avg_response_time (performance_metrics self1) =
             (avg_response_time (performance_metrics self) *
                real_of_int (total_requests (performance_metrics self)) + elapsed (c_env c)) /
             real_of_int (total_requests (performance_metrics self) + 1)"
    by blast
  from t Cons.prems(2) have pos: "0 \<le> total_requests (performance_metrics self1)" by simp
  have a': "avg_response_time (performance_metrics self1) *
              real_of_int (total_requests (performance_metrics self1)) =
            avg_response_time (performance_metrics self) *
              real_of_int (total_requests (performance_metrics self)) + elapsed (c_env c)"
  proof -
    have "real_of_int (total_requests (performance_metrics self) + 1) \<noteq> 0"
      using Cons.prems(2) by simp
    then show ?thesis unfolding a t by simp
  qed
  note ih = Cons.IH [OF rest pos]
  have ih1: "total_requests (performance_metrics (snd (run_calls self1 cs))) =
               total_requests (performance_metrics self1) + int (length cs)"
    and ih2: "avg_response_time (performance_metrics (snd (run_calls self1 cs))) *
                real_of_int (total_requests (performance_metrics (snd (run_calls self1 cs)))) =
              avg_response_time (performance_metrics self1) *
                real_of_int (total_requests (performance_metrics self1)) +
              sum_list (map (\<lambda>c. elapsed (c_env c)) cs)"
    using ih [THEN conjunct1] ih [THEN conjunct2] by this+
  have run: "snd (run_calls self (c # cs)) = snd (run_calls self1 cs)"
    using x by (simp add: split_beta)
  show ?case unfolding run ih2 a' using ih1 t by simp
qed

lemma registered_calls_mean:
  assumes "list_all (\<lambda>c. registered (c_action c)) cs" and "cs \<noteq> []"
    and "performance_metrics self = initial_metrics"
  shows "avg_response_time (performance_metrics (snd (run_calls self cs))) =
           mean (map (\<lambda>c. elapsed (c_env c)) cs)"
proof -
  have z: "total_requests (performance_metrics self) = 0"
    "avg_response_time (performance_metrics self) = 0"
    by (simp_all add: assms(3) initial_metrics_def)
  from z have "0 \<le> total_requests (performance_metrics self)" by simp
  note rc = run_calls_registered [OF assms(1) this]
  from rc [THEN conjunct1] rc [THEN conjunct2] z
  have t: "total_requests (performance_metrics (snd (run_calls self cs))) = int (length cs)"
    and a: "avg_response_time (performance_metrics (snd (run_calls self cs))) *
           real_of_int (total_requests (performance_metrics (snd (run_calls self cs)))) =
           sum_list (map (\<lambda>c. elapsed (c_env c)) cs)"
    by simp_all
  from assms(2) have "real (length cs) \<noteq> 0" by simp
  moreover from a have "avg_response_time (performance_metrics (snd (run_calls self cs))) *
      real (length cs) = sum_list (map (\<lambda>c. elapsed (c_env c)) cs)"
    unfolding t by simp
  ultimately show ?thesis by (simp add: mean_def field_simps)
qed

lemma registered_calls_rate:
  assumes "list_all (\<lambda>c. registered (c_action c)) cs" and "cs \<noteq> []"
    and "0 \<le> total_requests (performance_metrics self)"
  shows "success_rate (performance_metrics (snd (run_calls self cs))) =
           real_of_int (successful_trades (performance_metrics (snd (run_calls self cs)))) /
           real_of_int (total_requests (performance_metrics (snd (run_calls self cs))))"
  using assms
proof (induction cs arbitrary: self)
  case Nil
  then show ?case by simp
next
  case (Cons c cs)
  from Cons.prems have reg: "registered (c_action c)"
    and rest: "list_all (\<lambda>c. registered (c_action c)) cs" by simp_all
  from Cons.prems(3) have nz: "total_requests (performance_metrics self) \<noteq> - 1" by simp
  from execute_action_registered [OF reg nz, of "c_env c" "c_parameters c" "c_treasury c"]
  obtain r self1 where
    x: "execute_action (c_env c) self (c_action c) (c_parameters c) (c_treasury c) = (r, self1)"
    and t: "total_requests (performance_metrics self1) =
            total_requests (performance_metrics self) + 1"
    and q: "success_rate (performance_metrics self1) =
            real_of_int (successful_trades (performance_metrics self1)) /
            real_of_int (total_requests (performance_metrics self1))"
    by blast
  have run: "snd (run_calls self (c # cs)) = snd (run_calls self1 cs)"
    using x by (simp add: split_beta)
  show ?case
  proof (cases "cs = []")
    case True
    with q show ?thesis unfolding run by simp
  next
    case False
    from t Cons.prems(3) have "0 \<le> total_requests (performance_metrics self1)" by simp
    from Cons.IH [OF rest False this] show ?thesis unfolding run .
  qed
qed

lemma update_metrics_total_trades:
  "update_metrics env r m = Inr m' \<Longrightarrow> total_trades m' = total_trades m"
  by (auto simp: update_metrics_def Let_def split: if_splits)

lemma execute_action_total_trades:
  "total_trades (performance_metrics (snd (execute_action env self action p td))) =
   total_trades (snd (dispatch env action p td
     ((performance_metrics self)\<lparr>total_requests := total_requests (performance_metrics self) + 1\<rparr>)))"
  by (auto simp: execute_action_def try_block_def Let_def update_metrics_total_trades
      split: prod.splits sum.splits)

lemmas eval_defs =
  fresh_agent_def init_agent_def initial_metrics_def offline_env_def mk_call_def
  execute_action_def try_block_def dispatch_simps update_metrics_def Let_def
  rebalance_portfolio_def rebalance_portfolio_body_def catch_handler_def handler_failure_def
  action_failure_def bindE_def opt_get_def dict_get_def rebalance_step_def py_sub_def
  py_mul_def py_abs_def num_gt_def mk_trade_def py_positive_def create_execution_plan_def
  str_exn_def no_attribute_def AttributeError_def ValueError_def TypeError_def quoted_def
  scenario_parameters_def scenario_treasury_def trade_parameters_def
  execute_trade_def execute_trade_body_def trade_prelude_def py_add_def prices_def
  has_key_def result_success_def float_of_int_small

subsection \<open>The success rate\<close>

text \<open>
  After a call with a registered action on an agent whose request counter is not negative,
  the success rate is the quotient of the two counters, and no division by zero occurs:
  this is \<open>execute_action_registered\<close>, and \<open>registered_calls_rate\<close> for a sequence of
  such calls. A call with an unregistered action leaves the
  \<^verbatim>\<open>try\<close> block before the metrics are recomputed, while the request counter has already
  been incremented: \<open>execute_action_unknown\<close>.

  C1 fails on the code. After a successful rebalancing call followed by a call with the
  unregistered action \<^verbatim>\<open>liquidate\<close>, the counters are \<open>total_requests = 2\<close> and
  \<open>successful_trades = 1\<close>, and the success rate is still 1, not 1/2.
\<close>

theorem success_rate_stale_after_unknown_action:
  "total_requests (performance_metrics (snd (run_calls fresh_agent success_then_unknown))) = 2 \<and>
   successful_trades (performance_metrics (snd (run_calls fresh_agent success_then_unknown))) = 1 \<and>
   success_rate (performance_metrics (snd (run_calls fresh_agent success_then_unknown))) = 1 \<and>
   success_rate (performance_metrics (snd (run_calls fresh_agent success_then_unknown))) \<noteq>
     real_of_int
       (successful_trades (performance_metrics (snd (run_calls fresh_agent success_then_unknown)))) /
     real_of_int
       (total_requests (performance_metrics (snd (run_calls fresh_agent success_then_unknown))))"
  by (simp add: success_then_unknown_def eval_defs dispatch_unknown registered_def)

subsection \<open>The average response time\<close>

text \<open>
  For calls with registered actions only, starting from a new agent, the running mean is
  the arithmetic mean of the elapsed times: \<open>registered_calls_mean\<close>.

  C2 fails on the code. A call with an unregistered action that takes one second,
  followed by a successful call that takes three, leaves \<open>avg_response_time = 3/2\<close>, while
  the mean of the two elapsed times is 2: the update was not applied after the first call,
  and the second call divides by a request count of 2.
\<close>

theorem avg_response_time_skips_unknown_action:
  "map (\<lambda>c. elapsed (c_env c)) unknown_then_success = [1, 3] \<and>
   mean [1, 3] = 2 \<and>
   total_requests (performance_metrics (snd (run_calls fresh_agent unknown_then_success))) = 2 \<and>
   avg_response_time (performance_metrics (snd (run_calls fresh_agent unknown_then_success))) =
     3 / 2 \<and>
   avg_response_time (performance_metrics (snd (run_calls fresh_agent unknown_then_success))) \<noteq>
     mean (map (\<lambda>c. elapsed (c_env c)) unknown_then_success)"
  by (simp add: unknown_then_success_def eval_defs mean_def dispatch_unknown registered_def)

subsection \<open>Unregistered actions\<close>

text \<open>
  C3. For an action name outside the five registered ones, with any parameters and
  treasury data, \<^verbatim>\<open>execute_action\<close> returns (it does not raise): the result is the
  dictionary built by its \<^verbatim>\<open>except\<close> clause, with \<^verbatim>\<open>success\<close> false, \<^verbatim>\<open>confidence\<close> 0.0 and
  the error string \<^verbatim>\<open>Unknown action: \<close> followed by the action name.
\<close>

theorem unknown_action_fails:
  assumes "\<not> registered action"
  shows "fst (execute_action env self action parameters treasury_data) =
           [(''success'', PBool False),
            (''error'', PStr (''Unknown action: '' @ action)),
            (''confidence'', PFloat 0),
            (''action'', PStr action)]"
  using assms
  by (simp add: execute_action_unknown action_failure_def str_exn_def ValueError_def)

text \<open>C3 at the action name \<^verbatim>\<open>liquidate\<close>.\<close>

theorem unknown_action_fails_witness:
  "\<not> registered ''liquidate'' \<and>
   fst (execute_action (offline_env 1 0.5) fresh_agent ''liquidate'' [] None) =
     [(''success'', PBool False),
      (''error'', PStr ''Unknown action: liquidate''),
      (''confidence'', PFloat 0),
      (''action'', PStr ''liquidate'')]"
proof -
  have h: "\<not> registered ''liquidate''" by (simp add: registered_def)
  from unknown_action_fails [OF h, of "offline_env 1 0.5" fresh_agent "[]" None] h
  show ?thesis by simp
qed

subsection \<open>The rebalancing scenario\<close>

text \<open>
  C4, as stated, fails: with targets A 0.6 and B 0.4, current allocations A 0.5 and B 0.5,
  a total value of 10000 and a minimum trade size of 100, the loop visits both assets, and
  the difference for B is \<open>-0.1\<close>, whose trade value has the absolute value 1000 as well. The
  list of trades is not the single purchase of A, and \<^verbatim>\<open>total_trades\<close> is 2.
\<close>

theorem rebalance_scenario_not_one_trade:
  "dict_get (fst (execute_action (offline_env 1 0.5) fresh_agent ''rebalance''
                    scenario_parameters (Some scenario_treasury))) ''trades'' PNone \<noteq>
     PList [PDict [(''asset'', PStr ''A''), (''action'', PStr ''buy''), (''amount'', PFloat 1000),
                   (''current_allocation'', PFloat 0.5), (''target_allocation'', PFloat 0.6)]] \<and>
   dict_get (fst (execute_action (offline_env 1 0.5) fresh_agent ''rebalance''
                    scenario_parameters (Some scenario_treasury))) ''total_trades'' PNone =
     PInt 2"
  by (simp add: eval_defs)

text \<open>
  C4, amended. In the scenario the call succeeds and its list of trades has exactly two
  entries, in the order of the targets: a purchase of A and a sale of B, and \<^verbatim>\<open>total_trades\<close>
  is 2. Each amount is 1000 up to the rounding of the floating-point operations (the
  differences \<open>0.6 - 0.5\<close> and \<open>0.4 - 0.5\<close> are not exact in binary floating point, and the
  amounts of the program are \<open>999.9999999999998\<close>): each lies within \<open>0.001\<close> of 1000.
\<close>

theorem rebalance_scenario_two_trades:
  "dict_get (fst (execute_action (offline_env 1 0.5) fresh_agent ''rebalance''
                    scenario_parameters (Some scenario_treasury))) ''success'' PNone =
     PBool True \<and>
   dict_get (fst (execute_action (offline_env 1 0.5) fresh_agent ''rebalance''
                    scenario_parameters (Some scenario_treasury))) ''action'' PNone =
     PStr ''rebalance'' \<and>
   dict_get (fst (execute_action (offline_env 1 0.5) fresh_agent ''rebalance''
                    scenario_parameters (Some scenario_treasury))) ''total_trades'' PNone =
     PInt 2 \<and>
   (\<exists>buy sell.
      dict_get (fst (execute_action (offline_env 1 0.5) fresh_agent ''rebalance''
                       scenario_parameters (Some scenario_treasury))) ''trades'' PNone =
        PList [PDict buy, PDict sell] \<and>
      dict_get buy ''asset'' PNone = PStr ''A'' \<and>
      dict_get buy ''action'' PNone = PStr ''buy'' \<and>
      (\<exists>x. dict_get buy ''amount'' PNone = PFloat x \<and> \<bar>x - 1000\<bar> < 0.001) \<and>
      dict_get sell ''asset'' PNone = PStr ''B'' \<and>
      dict_get sell ''action'' PNone = PStr ''sell'' \<and>
      (\<exists>y. dict_get sell ''amount'' PNone = PFloat y \<and> \<bar>y - 1000\<bar> < 0.001))"
proof -
  have trades:
    "dict_get (fst (execute_action (offline_env 1 0.5) fresh_agent ''rebalance''
                      scenario_parameters (Some scenario_treasury))) ''trades'' PNone =
       PList [PDict [(''asset'', PStr ''A''), (''action'', PStr ''buy''),
                     (''amount'', PFloat 1000), (''current_allocation'', PFloat 0.5),
                     (''target_allocation'', PFloat 0.6)],
              PDict [(''asset'', PStr ''B''), (''action'', PStr ''sell''),
                     (''amount'', PFloat 1000), (''current_allocation'', PFloat 0.5),
                     (''target_allocation'', PFloat 0.4)]]"
    by (simp add: eval_defs)
  have success:
    "dict_get (fst (execute_action (offline_env 1 0.5) fresh_agent ''rebalance''
                      scenario_parameters (Some scenario_treasury))) ''success'' PNone =
       PBool True"
    by (simp add: eval_defs)
  have action:
    "dict_get (fst (execute_action (offline_env 1 0.5) fresh_agent ''rebalance''
                      scenario_parameters (Some scenario_treasury))) ''action'' PNone =
       PStr ''rebalance''"
    by (simp add: eval_defs)
  have count:
    "dict_get (fst (execute_action (offline_env 1 0.5) fresh_agent ''rebalance''
                      scenario_parameters (Some scenario_treasury))) ''total_trades'' PNone =
       PInt 2"
    by (simp add: eval_defs)
  show ?thesis
    unfolding trades success action count
    by (intro conjI exI [of _ "[(''asset'', PStr ''A''), (''action'', PStr ''buy''),
                     (''amount'', PFloat 1000), (''current_allocation'', PFloat 0.5),
                     (''target_allocation'', PFloat 0.6)]"]
          exI [of _ "[(''asset'', PStr ''B''), (''action'', PStr ''sell''),
                     (''amount'', PFloat 1000), (''current_allocation'', PFloat 0.5),
                     (''target_allocation'', PFloat 0.4)]"] exI [of _ "1000::real"])
       (simp_all add: dict_get_def)
qed

subsection \<open>The shape of every result\<close>

text \<open>
  C5, as stated, fails: a rebalancing call without treasury data ends in the handler's own
  \<^verbatim>\<open>except\<close> clause, whose dictionary has the keys \<^verbatim>\<open>success\<close>, \<^verbatim>\<open>error\<close> and
  \<^verbatim>\<open>confidence\<close> only. The result has no \<^verbatim>\<open>action\<close> field.
\<close>

theorem result_without_action_field:
  "registered ''rebalance'' \<and>
   fst (execute_action (offline_env 1 0.5) fresh_agent ''rebalance'' scenario_parameters None) =
     [(''success'', PBool False),
      (''error'', PStr (quoted ''NoneType'' @ '' object has no attribute '' @ quoted ''get'')),
      (''confidence'', PFloat 0)] \<and>
   \<not> has_key (fst (execute_action (offline_env 1 0.5) fresh_agent ''rebalance''
                    scenario_parameters None)) ''action''"
  by (simp add: eval_defs registered_def)

text \<open>
  C5, amended. Every result of \<^verbatim>\<open>execute_action\<close> has a boolean \<^verbatim>\<open>success\<close> field and a
  \<^verbatim>\<open>confidence\<close> field. If \<^verbatim>\<open>success\<close> is false, the confidence is 0.0 and the \<^verbatim>\<open>error\<close>
  field is set. If \<^verbatim>\<open>success\<close> is true, there is no \<^verbatim>\<open>error\<close> field and the \<^verbatim>\<open>action\<close>
  field holds the requested action name. The failed result for an unregistered action
  holds the requested action name as well.
\<close>

theorem result_invariant:
  "(dict_get (fst (execute_action env self action parameters treasury_data)) ''success'' PNone
      = PBool True \<or>
    dict_get (fst (execute_action env self action parameters treasury_data)) ''success'' PNone
      = PBool False) \<and>
   has_key (fst (execute_action env self action parameters treasury_data)) ''confidence'' \<and>
   (dict_get (fst (execute_action env self action parameters treasury_data)) ''success'' PNone
      = PBool False \<longrightarrow>
    dict_get (fst (execute_action env self action parameters treasury_data)) ''confidence'' PNone
      = PFloat 0 \<and>
    has_key (fst (execute_action env self action parameters treasury_data)) ''error'') \<and>
   (dict_get (fst (execute_action env self action parameters treasury_data)) ''success'' PNone
      = PBool True \<longrightarrow>
    \<not> has_key (fst (execute_action env self action parameters treasury_data)) ''error'' \<and>
    dict_get (fst (execute_action env self action parameters treasury_data)) ''action'' PNone
      = PStr action) \<and>
   (\<not> registered action \<longrightarrow>
    dict_get (fst (execute_action env self action parameters treasury_data)) ''action'' PNone
      = PStr action)"
proof -
  define r where "r = fst (execute_action env self action parameters treasury_data)"
  define m1 where "m1 = (performance_metrics self)\<lparr>total_requests :=
                           total_requests (performance_metrics self) + 1\<rparr>"
  have failure: "?thesis" if "r = action_failure action e" for e
    using that action_failure_fields [of action e]
    unfolding r_def [symmetric] by (simp add: dict_get_def has_key_def)
  have handler_failed: "?thesis" if "registered action" "r = handler_failure e" for e
    using that handler_failure_fields [of e]
    unfolding r_def [symmetric] by (simp add: dict_get_def has_key_def)
  have trade_failed: "?thesis"
    if "registered action"
       "r = [(''success'', PBool False),
             (''error'', PStr ''Trade execution failed - insufficient liquidity''),
             (''confidence'', PFloat 0)]"
    using that unfolding r_def [symmetric] by (simp add: dict_get_def has_key_def)
  have succeeded: "?thesis"
    if "registered action" "map_of r ''success'' = Some (PBool True)"
       "map_of r ''action'' = Some (PStr action)" "map_of r ''error'' = None"
       "map_of r ''confidence'' = Some (PFloat c)" for c
    using that unfolding r_def [symmetric] by (simp add: dict_get_def has_key_def)
  from execute_action_result_cases [of env self action parameters treasury_data]
  consider e where "r = action_failure action e"
    | "registered action" "fst (dispatch env action parameters treasury_data m1) = Inr r"
    unfolding r_def m1_def by blast
  then show ?thesis
  proof cases
    case 1
    then show ?thesis by (rule failure)
  next
    case 2
    show ?thesis
    proof (cases "handler_exception env action parameters treasury_data")
      case (Some e)
      from dispatch_handler_raises [OF 2(1) Some, of m1] 2(2)
      have "r = handler_failure e" by simp
      with 2(1) show ?thesis by (rule handler_failed)
    next
      case None
      from dispatch_handler_returns [OF 2(1) None, of m1] 2(2)
      have "if action = ''execute_trade'' \<and> \<not> random_draw env > 0.05
           then r = [(''success'', PBool False),
                     (''error'', PStr ''Trade execution failed - insufficient liquidity''),
                     (''confidence'', PFloat 0)]
           else map_of r ''success'' = Some (PBool True) \<and>
                map_of r ''action'' = Some (PStr action) \<and>
                map_of r ''error'' = None \<and>
                (\<exists>c. map_of r ''confidence'' = Some (PFloat c) \<and> 0 \<le> c \<and> c \<le> 1)"
        by simp
      then show ?thesis
      proof (cases "action = ''execute_trade'' \<and> \<not> random_draw env > 0.05")
        case True
        with \<open>if _ then _ else _\<close> 2(1) show ?thesis
          by (intro trade_failed) simp_all
      next
        case False
        with \<open>if _ then _ else _\<close> obtain c where
          "map_of r ''success'' = Some (PBool True)"
          "map_of r ''action'' = Some (PStr action)" "map_of r ''error'' = None"
          "map_of r ''confidence'' = Some (PFloat c)"
          by auto
        with 2(1) show ?thesis by (rule succeeded)
      qed
    qed
  qed
qed

text \<open>C5, amended, at a failed rebalancing call, at the rebalancing scenario and at the
  unregistered action \<^verbatim>\<open>liquidate\<close>.\<close>

theorem result_invariant_witness:
  "dict_get (fst (execute_action (offline_env 1 0.5) fresh_agent ''rebalance''
                    scenario_parameters None)) ''confidence'' PNone = PFloat 0 \<and>
   has_key (fst (execute_action (offline_env 1 0.5) fresh_agent ''rebalance''
                    scenario_parameters None)) ''error'' \<and>
   \<not> has_key (fst (execute_action (offline_env 1 0.5) fresh_agent ''rebalance''
                    scenario_parameters (Some scenario_treasury))) ''error'' \<and>
   dict_get (fst (execute_action (offline_env 1 0.5) fresh_agent ''rebalance''
                    scenario_parameters (Some scenario_treasury))) ''action'' PNone =
     PStr ''rebalance'' \<and>
   dict_get (fst (execute_action (offline_env 1 0.5) fresh_agent ''liquidate'' [] None))
     ''action'' PNone = PStr ''liquidate''"
proof -
  have h1: "dict_get (fst (execute_action (offline_env 1 0.5) fresh_agent ''rebalance''
                    scenario_parameters None)) ''success'' PNone = PBool False"
    by (simp add: eval_defs)
  have h2: "dict_get (fst (execute_action (offline_env 1 0.5) fresh_agent ''rebalance''
                    scenario_parameters (Some scenario_treasury))) ''success'' PNone = PBool True"
    by (simp add: eval_defs)
  have h3: "\<not> registered ''liquidate''" by (simp add: registered_def)
  from result_invariant [of "offline_env 1 0.5" fresh_agent "''rebalance''" scenario_parameters None]
       h1
  have a: "dict_get (fst (execute_action (offline_env 1 0.5) fresh_agent ''rebalance''
                    scenario_parameters None)) ''confidence'' PNone = PFloat 0 \<and>
   has_key (fst (execute_action (offline_env 1 0.5) fresh_agent ''rebalance''
                    scenario_parameters None)) ''error''"
    by blast
  from result_invariant [of "offline_env 1 0.5" fresh_agent "''rebalance''" scenario_parameters
         "Some scenario_treasury"] h2
  have b: "\<not> has_key (fst (execute_action (offline_env 1 0.5) fresh_agent ''rebalance''
                    scenario_parameters (Some scenario_treasury))) ''error'' \<and>
   dict_get (fst (execute_action (offline_env 1 0.5) fresh_agent ''rebalance''
                    scenario_parameters (Some scenario_treasury))) ''action'' PNone =
     PStr ''rebalance''"
    by blast
  from result_invariant [of "offline_env 1 0.5" fresh_agent "''liquidate''" "[]" None] h3
  have c: "dict_get (fst (execute_action (offline_env 1 0.5) fresh_agent ''liquidate'' [] None))
     ''action'' PNone = PStr ''liquidate''"
    by blast
  from a b c show ?thesis by blast
qed

subsection \<open>Valid requests\<close>

text \<open>
  C6, as stated, fails: a well-typed trade request for a registered action is reported as
  failed when the simulated draw is at most 0.05.
\<close>

theorem valid_trade_can_fail:
  "registered ''execute_trade'' \<and> valid_trade trade_parameters \<and>
   dict_get (fst (execute_action (offline_env 1 0.01) fresh_agent ''execute_trade''
                    trade_parameters None)) ''success'' PNone = PBool False"
  using float_limit_bounds(1)
  by (simp add: eval_defs registered_def valid_trade_def convertible_def)

text \<open>
  The handler of \<^verbatim>\<open>optimize_portfolio\<close> multiplies the array of the network's allocations by
  the dictionary of expected returns, which raises \<^verbatim>\<open>TypeError\<close>; whatever raises before
  that point ends in the same \<^verbatim>\<open>except\<close> clause. So no request for \<^verbatim>\<open>optimize_portfolio\<close>
  succeeds, whatever the parameters, the treasury data and the answers of the libraries.
\<close>

lemma optimize_portfolio_always_fails:
  "dict_get (fst (execute_action env self ''optimize_portfolio'' parameters treasury_data))
     ''success'' PNone = PBool False"
proof -
  define m1 where "m1 = (performance_metrics self)\<lparr>total_requests :=
                           total_requests (performance_metrics self) + 1\<rparr>"
  define r where "r = fst (execute_action env self ''optimize_portfolio'' parameters
                             treasury_data)"
  have reg: "registered ''optimize_portfolio''" by (simp add: registered_def)
  from optimize_body_raises [of env parameters treasury_data] obtain e where
    e: "handler_exception env ''optimize_portfolio'' parameters treasury_data = Some e"
    by (auto simp: handler_exception_simps)
  from execute_action_result_cases [of env self "''optimize_portfolio''" parameters
         treasury_data]
  consider e' where "r = action_failure ''optimize_portfolio'' e'"
    | "fst (dispatch env ''optimize_portfolio'' parameters treasury_data m1) = Inr r"
    unfolding r_def m1_def by blast
  then have "dict_get r ''success'' PNone = PBool False"
  proof cases
    case 1
    then show ?thesis by (simp add: action_failure_def dict_get_def)
  next
    case 2
    with dispatch_handler_raises [OF reg e, of m1] have "r = handler_failure e" by simp
    then show ?thesis by (simp add: handler_failure_def dict_get_def)
  qed
  then show ?thesis by (simp add: r_def)
qed

text \<open>For instance, with a network that answers and a list of two assets, the handler
  reaches the multiplication, whose \<^verbatim>\<open>TypeError\<close> ends the body.\<close>

lemma optimize_portfolio_type_error:
  "handler_exception (online_env 1 0.5) ''optimize_portfolio'' optimize_parameters
     (Some scenario_treasury) =
   Some (unsupported_operand ''*'' (PFloat 0.1) (PDict []))"
  by (simp add: handler_exception_simps optimize_portfolio_body_def online_env_def
      offline_env_def optimize_parameters_def dict_get_def bindE_def Let_def
      calculate_expected_returns_def py_setitem_def array_times_dict_def
      num_assets_def upt_conv_Cons)

text \<open>
  C6, amended. For each of the actions \<^verbatim>\<open>rebalance\<close>, \<^verbatim>\<open>risk_analysis\<close>, \<^verbatim>\<open>yield_prediction\<close>
  and \<^verbatim>\<open>execute_trade\<close> and every valid request, on an agent whose request counter is not
  negative, the result has \<^verbatim>\<open>success\<close> true and a confidence in \<open>[0, 1]\<close>, except that
  \<^verbatim>\<open>execute_trade\<close> returns \<^verbatim>\<open>success\<close> false with confidence 0.0 when the simulated draw is
  at most 0.05. This holds whatever the clock, the random draws and the sampled returns
  are. A request is valid by its parameters and its treasury data alone:

    \<^item> for \<^verbatim>\<open>rebalance\<close>, treasury data is present, the allocations and the total value are
      floats or integers of at most 53 bits, and the minimum trade size is a number;
    \<^item> for \<^verbatim>\<open>risk_analysis\<close>, treasury data is present and its current allocations are a
      dictionary of numbers that convert to a float, the assets are an iterable of
      hashable values, and the time horizon is an integer \<open>n\<close> with
      \<open>0 \<le> 2 n \<le> sample_limit\<close>;
    \<^item> for \<^verbatim>\<open>yield_prediction\<close>, the strategies are a non-empty iterable of hashable values
      and the time horizon is a number other than 0;
    \<^item> for \<^verbatim>\<open>execute_trade\<close>, the asset is hashable and the amount is a float or an integer
      that converts to a float.

  The action \<^verbatim>\<open>optimize_portfolio\<close> is left out: no request for it succeeds.
\<close>

theorem valid_request_outcome:
  assumes "valid_request action parameters treasury_data"
    and "0 \<le> total_requests (performance_metrics self)"
  shows "if action = ''execute_trade'' \<and> random_draw env \<le> 0.05
         then dict_get (fst (execute_action env self action parameters treasury_data))
                ''success'' PNone = PBool False \<and>
              dict_get (fst (execute_action env self action parameters treasury_data))
                ''confidence'' PNone = PFloat 0
         else dict_get (fst (execute_action env self action parameters treasury_data))
                ''success'' PNone = PBool True \<and>
              (\<exists>c. dict_get (fst (execute_action env self action parameters treasury_data))
                      ''confidence'' PNone = PFloat c \<and> 0 \<le> c \<and> c \<le> 1)"
proof -
  define r where "r = fst (execute_action env self action parameters treasury_data)"
  define m1 where "m1 = (performance_metrics self)\<lparr>total_requests :=
                           total_requests (performance_metrics self) + 1\<rparr>"
  have reg: "registered action" using assms(1) by (rule valid_request_registered)
  have none: "handler_exception env action parameters treasury_data = None"
    using assms(1) by (rule valid_request_returns)
  from assms(2) have "total_requests (performance_metrics self) \<noteq> - 1" by simp
  from execute_action_registered [OF reg this, of env parameters treasury_data]
  have d: "fst (dispatch env action parameters treasury_data m1) = Inr r"
    by (auto simp: r_def m1_def)
  from dispatch_handler_returns [OF reg none, of m1] d
  have shape: "if action = ''execute_trade'' \<and> \<not> random_draw env > 0.05
           then r = [(''success'', PBool False),
                     (''error'', PStr ''Trade execution failed - insufficient liquidity''),
                     (''confidence'', PFloat 0)]
           else map_of r ''success'' = Some (PBool True) \<and>
                map_of r ''action'' = Some (PStr action) \<and>
                map_of r ''error'' = None \<and>
                (\<exists>c. map_of r ''confidence'' = Some (PFloat c) \<and> 0 \<le> c \<and> c \<le> 1)"
    by simp
  show ?thesis
  proof (cases "action = ''execute_trade'' \<and> random_draw env \<le> 0.05")
    case True
    with shape have "r = [(''success'', PBool False),
                     (''error'', PStr ''Trade execution failed - insufficient liquidity''),
                     (''confidence'', PFloat 0)]"
      by (simp add: not_less)
    with True show ?thesis unfolding r_def [symmetric] by (simp add: dict_get_def)
  next
    case False
    then have nf: "\<not> (action = ''execute_trade'' \<and> \<not> random_draw env > 0.05)"
      by (simp add: not_less)
    with shape obtain c where s: "map_of r ''success'' = Some (PBool True)"
      and c: "map_of r ''confidence'' = Some (PFloat c)"
      and b: "0 \<le> c \<and> c \<le> 1"
      by auto
    with False show ?thesis unfolding r_def [symmetric]
      by (auto simp: dict_get_def)
  qed
qed

text \<open>C6, amended, at the rebalancing scenario, at a risk analysis of two assets over 30
  days, at a yield prediction with the default parameters, and at a trade whose draw is
  0.01.\<close>

theorem valid_request_outcome_witness:
  "valid_request ''rebalance'' scenario_parameters (Some scenario_treasury) \<and>
   valid_request ''risk_analysis'' risk_parameters (Some scenario_treasury) \<and>
   valid_request ''yield_prediction'' [] None \<and>
   valid_request ''execute_trade'' trade_parameters None \<and>
   0 \<le> total_requests (performance_metrics fresh_agent) \<and>
   dict_get (fst (execute_action (offline_env 1 0.5) fresh_agent ''rebalance''
                    scenario_parameters (Some scenario_treasury))) ''success'' PNone = PBool True \<and>
   (\<exists>c. dict_get (fst (execute_action (offline_env 1 0.5) fresh_agent ''rebalance''
                    scenario_parameters (Some scenario_treasury))) ''confidence'' PNone = PFloat c \<and>
        0 \<le> c \<and> c \<le> 1) \<and>
   dict_get (fst (execute_action (offline_env 1 0.5) fresh_agent ''risk_analysis''
                    risk_parameters (Some scenario_treasury))) ''success'' PNone = PBool True \<and>
   (\<exists>c. dict_get (fst (execute_action (offline_env 1 0.5) fresh_agent ''risk_analysis''
                    risk_parameters (Some scenario_treasury))) ''confidence'' PNone = PFloat c \<and>
        0 \<le> c \<and> c \<le> 1) \<and>
   dict_get (fst (execute_action (offline_env 1 0.5) fresh_agent ''yield_prediction''
                    [] None)) ''success'' PNone = PBool True \<and>
   (\<exists>c. dict_get (fst (execute_action (offline_env 1 0.5) fresh_agent ''yield_prediction''
                    [] None)) ''confidence'' PNone = PFloat c \<and>
        0 \<le> c \<and> c \<le> 1) \<and>
   dict_get (fst (execute_action (offline_env 1 0.01) fresh_agent ''execute_trade''
                    trade_parameters None)) ''success'' PNone = PBool False \<and>
   dict_get (fst (execute_action (offline_env 1 0.01) fresh_agent ''execute_trade''
                    trade_parameters None)) ''confidence'' PNone = PFloat 0"
proof -
  have v1: "valid_request ''rebalance'' scenario_parameters (Some scenario_treasury)"
    by (simp add: valid_request_simps valid_rebalance_def scenario_parameters_def
        scenario_treasury_def dict_get_def is_number_def small_number_def)
  have v2: "valid_request ''risk_analysis'' risk_parameters (Some scenario_treasury)"
    by (simp add: valid_request_simps valid_risk_def risk_parameters_def
        scenario_treasury_def dict_get_def convertible_def sample_limit_def)
  have v3: "valid_request ''yield_prediction'' [] None"
    by (simp add: valid_request_simps valid_yield_def dict_get_def)
  have v4: "valid_request ''execute_trade'' trade_parameters None"
    using float_limit_bounds(1)
    by (simp add: valid_request_simps valid_trade_def trade_parameters_def dict_get_def
        convertible_def)
  have f: "0 \<le> total_requests (performance_metrics fresh_agent)"
    by (simp add: fresh_agent_def init_agent_def initial_metrics_def)
  have d: "random_draw (offline_env 1 0.5) = 0.5" "random_draw (offline_env 1 0.01) = 0.01"
    by (simp_all add: offline_env_def)
  have n: "''rebalance'' \<noteq> ''execute_trade''" "''risk_analysis'' \<noteq> ''execute_trade''"
    "''yield_prediction'' \<noteq> ''execute_trade''"
    by simp_all
  from valid_request_outcome [OF v1 f, of "offline_env 1 0.5"]
  have a1: "dict_get (fst (execute_action (offline_env 1 0.5) fresh_agent ''rebalance''
                    scenario_parameters (Some scenario_treasury))) ''success'' PNone = PBool True \<and>
   (\<exists>c. dict_get (fst (execute_action (offline_env 1 0.5) fresh_agent ''rebalance''
                    scenario_parameters (Some scenario_treasury))) ''confidence'' PNone = PFloat c \<and>
        0 \<le> c \<and> c \<le> 1)"
    by (simp only: n if_False simp_thms)
  from valid_request_outcome [OF v2 f, of "offline_env 1 0.5"]
  have a2: "dict_get (fst (execute_action (offline_env 1 0.5) fresh_agent ''risk_analysis''
                    risk_parameters (Some scenario_treasury))) ''success'' PNone = PBool True \<and>
   (\<exists>c. dict_get (fst (execute_action (offline_env 1 0.5) fresh_agent ''risk_analysis''
                    risk_parameters (Some scenario_treasury))) ''confidence'' PNone = PFloat c \<and>
        0 \<le> c \<and> c \<le> 1)"
    by (simp only: n if_False simp_thms)
  from valid_request_outcome [OF v3 f, of "offline_env 1 0.5"]
  have a3: "dict_get (fst (execute_action (offline_env 1 0.5) fresh_agent ''yield_prediction''
                    [] None)) ''success'' PNone = PBool True \<and>
   (\<exists>c. dict_get (fst (execute_action (offline_env 1 0.5) fresh_agent ''yield_prediction''
                    [] None)) ''confidence'' PNone = PFloat c \<and>
        0 \<le> c \<and> c \<le> 1)"
    by (simp only: n if_False simp_thms)
  from valid_request_outcome [OF v4 f, of "offline_env 1 0.01"] d(2)
  have a4: "dict_get (fst (execute_action (offline_env 1 0.01) fresh_agent ''execute_trade''
                    trade_parameters None)) ''success'' PNone = PBool False \<and>
   dict_get (fst (execute_action (offline_env 1 0.01) fresh_agent ''execute_trade''
                    trade_parameters None)) ''confidence'' PNone = PFloat 0"
    by simp
  from v1 v2 v3 v4 f a1 a2 a3 a4 show ?thesis by blast
qed

subsection \<open>A handler that raises\<close>

text \<open>
  C7. Three calls on a new agent, of which the first and the third succeed and the second
  has a registered action whose handler raises \<open>e\<close> inside its \<^verbatim>\<open>try\<close> block: the second
  call returns the failed result with the message of \<open>e\<close> and confidence 0.0, and the
  metrics end with \<open>total_requests = 3\<close>, \<open>successful_trades = 2\<close> (the counter of successful
  requests) and a success rate of 2/3.
\<close>

theorem middle_handler_exception_metrics:
  assumes "performance_metrics self = initial_metrics"
    and "run_calls self [c1, c2, c3] = ([r1, r2, r3], self')"
    and "result_success r1" and "result_success r3"
    and "registered (c_action c2)"
    and "handler_exception (c_env c2) (c_action c2) (c_parameters c2) (c_treasury c2) = Some e"
  shows "r2 = [(''success'', PBool False), (''error'', PStr (str_exn e)),
               (''confidence'', PFloat 0)] \<and>
         total_requests (performance_metrics self') = 3 \<and>
         successful_trades (performance_metrics self') = 2 \<and>
         success_rate (performance_metrics self') = 2 / 3"
proof -
  obtain s1 where x1: "execute_action (c_env c1) self (c_action c1) (c_parameters c1) (c_treasury c1) = (r1, s1)"
    using assms(2) by (auto split: prod.splits)
  obtain s2 where x2: "execute_action (c_env c2) s1 (c_action c2) (c_parameters c2) (c_treasury c2) = (r2, s2)"
    using assms(2) x1 by (auto split: prod.splits)
  have x3: "execute_action (c_env c3) s2 (c_action c3) (c_parameters c3) (c_treasury c3) = (r3, self')"
    using assms(2) x1 x2 by (auto split: prod.splits)
  from three_calls_metrics [OF assms(1) x1 x2 x3 assms(3,4,5,6)]
  show ?thesis by (simp add: handler_failure_def)
qed

text \<open>C7 at three calls whose second is a rebalancing request without treasury data, which
  raises an \<^verbatim>\<open>AttributeError\<close> in the handler.\<close>

theorem middle_handler_exception_metrics_witness:
  "performance_metrics fresh_agent = initial_metrics \<and>
   registered ''rebalance'' \<and>
   handler_exception (offline_env 2 0.5) ''rebalance'' scenario_parameters None =
     Some (no_attribute ''NoneType'' ''get'') \<and>
   result_success (fst (run_calls fresh_agent three_calls) ! 0) \<and>
   result_success (fst (run_calls fresh_agent three_calls) ! 2) \<and>
   fst (run_calls fresh_agent three_calls) ! 1 =
     [(''success'', PBool False),
      (''error'', PStr (quoted ''NoneType'' @ '' object has no attribute '' @ quoted ''get'')),
      (''confidence'', PFloat 0)] \<and>
   total_requests (performance_metrics (snd (run_calls fresh_agent three_calls))) = 3 \<and>
   successful_trades (performance_metrics (snd (run_calls fresh_agent three_calls))) = 2 \<and>
   success_rate (performance_metrics (snd (run_calls fresh_agent three_calls))) = 2 / 3"
proof -
  define c1 where "c1 = mk_call (offline_env 1 0.5) ''rebalance'' scenario_parameters (Some scenario_treasury)"
  define c2 where "c2 = mk_call (offline_env 2 0.5) ''rebalance'' scenario_parameters None"
  define c3 where "c3 = mk_call (offline_env 3 0.5) ''execute_trade'' trade_parameters None"
  define o1 where "o1 = execute_action (c_env c1) fresh_agent (c_action c1) (c_parameters c1) (c_treasury c1)"
  define o2 where "o2 = execute_action (c_env c2) (snd o1) (c_action c2) (c_parameters c2) (c_treasury c2)"
  define o3 where "o3 = execute_action (c_env c3) (snd o2) (c_action c3) (c_parameters c3) (c_treasury c3)"
  have tc: "three_calls = [c1, c2, c3]" by (simp add: three_calls_def c1_def c2_def c3_def)
  have run: "run_calls fresh_agent [c1, c2, c3] = ([fst o1, fst o2, fst o3], snd o3)"
    by (simp add: o1_def o2_def o3_def split_beta)
  have fresh: "performance_metrics fresh_agent = initial_metrics"
    by (simp add: fresh_agent_def init_agent_def)
  have ok1: "result_success (fst o1)"
    by (simp add: o1_def c1_def eval_defs)
  have reg: "registered (c_action c2)" by (simp add: c2_def mk_call_def registered_def)
  have exn: "handler_exception (c_env c2) (c_action c2) (c_parameters c2) (c_treasury c2) =
      Some (no_attribute ''NoneType'' ''get'')"
    by (simp add: c2_def mk_call_def handler_exception_simps rebalance_portfolio_body_def
        opt_get_def bindE_def)
  have ok3: "result_success (fst o3)"
    by (simp add: o3_def o2_def o1_def c1_def c2_def c3_def eval_defs)
  from middle_handler_exception_metrics [OF fresh run ok1 ok3 reg exn] fresh reg exn ok1 ok3 run
  show ?thesis
    by (simp add: tc c2_def mk_call_def str_exn_def no_attribute_def AttributeError_def registered_def)
qed

subsection \<open>Frame\<close>

text \<open>
  C8. A call of \<^verbatim>\<open>execute_action\<close>, with any action, parameters and treasury data, changes
  no field of the agent other than \<^verbatim>\<open>performance_metrics\<close>: the identifier, the model, the
  scaler, the training flag, the market data cache, the last predictions, the optimizer
  and the loss are the same after the call.
\<close>

theorem execute_action_frame:
  "agent_id (snd (execute_action env self action parameters treasury_data)) = agent_id self \<and>
   model (snd (execute_action env self action parameters treasury_data)) = model self \<and>
   scaler (snd (execute_action env self action parameters treasury_data)) = scaler self \<and>
   is_trained (snd (execute_action env self action parameters treasury_data)) = is_trained self \<and>
   market_data_cache (snd (execute_action env self action parameters treasury_data)) =
     market_data_cache self \<and>
   last_predictions (snd (execute_action env self action parameters treasury_data)) =
     last_predictions self \<and>
   optimizer (snd (execute_action env self action parameters treasury_data)) = optimizer self \<and>
   criterion (snd (execute_action env self action parameters treasury_data)) = criterion self \<and>
   snd (execute_action env self action parameters treasury_data) =
     self\<lparr>performance_metrics :=
            performance_metrics (snd (execute_action env self action parameters treasury_data))\<rparr>"
  by (simp add: execute_action_def Let_def split: prod.splits sum.splits)

subsection \<open>The trade counter\<close>

text \<open>
  C10. A call of \<^verbatim>\<open>execute_action\<close> with the action \<^verbatim>\<open>execute_trade\<close> whose parameters let
  the handler reach the simulation (the statements before it do not raise) increments
  \<^verbatim>\<open>total_trades\<close> by exactly 1, whatever the simulated draw, hence whether the trade is
  reported as successful or as failed.
\<close>

theorem execute_trade_counts_trade:
  assumes "trade_prelude parameters = Inr v"
  shows "total_trades (performance_metrics
           (snd (execute_action env self ''execute_trade'' parameters treasury_data))) =
         total_trades (performance_metrics self) + 1"
proof -
  have "snd (execute_trade env parameters treasury_data m) =
        m\<lparr>total_trades := total_trades m + 1\<rparr>" for m
    using assms by (simp add: execute_trade_def execute_trade_body_def Let_def)
  then show ?thesis
    by (simp add: execute_action_total_trades dispatch_simps)
qed

text \<open>C10 at a purchase of ETH for 1000, once with a draw of 0.01 (the trade is reported as
  failed) and once with a draw of 0.5 (it is reported as successful).\<close>

theorem execute_trade_counts_trade_witness:
  "trade_prelude trade_parameters =
     Inr \<lparr>tv_execution_price = 2500, tv_slippage = PFloat 1,
          tv_executed_amount = PFloat 999, tv_total_cost = PInt 1050\<rparr> \<and>
   total_trades (performance_metrics
     (snd (execute_action (offline_env 1 0.01) fresh_agent ''execute_trade''
             trade_parameters None))) = 1 \<and>
   dict_get (fst (execute_action (offline_env 1 0.01) fresh_agent ''execute_trade''
             trade_parameters None)) ''success'' PNone = PBool False \<and>
   total_trades (performance_metrics
     (snd (execute_action (offline_env 1 0.5) fresh_agent ''execute_trade''
             trade_parameters None))) = 1 \<and>
   dict_get (fst (execute_action (offline_env 1 0.5) fresh_agent ''execute_trade''
             trade_parameters None)) ''success'' PNone = PBool True"
proof -
  have h: "trade_prelude trade_parameters =
     Inr \<lparr>tv_execution_price = 2500, tv_slippage = PFloat 1,
          tv_executed_amount = PFloat 999, tv_total_cost = PInt 1050\<rparr>"
    by (simp add: eval_defs)
  have f: "total_trades (performance_metrics fresh_agent) = 0"
    by (simp add: fresh_agent_def init_agent_def initial_metrics_def)
  have s1: "dict_get (fst (execute_action (offline_env 1 0.01) fresh_agent ''execute_trade''
             trade_parameters None)) ''success'' PNone = PBool False"
    by (simp add: eval_defs)
  have s2: "dict_get (fst (execute_action (offline_env 1 0.5) fresh_agent ''execute_trade''
             trade_parameters None)) ''success'' PNone = PBool True"
    by (simp add: eval_defs)
  from execute_trade_counts_trade [OF h, of "offline_env 1 0.01" fresh_agent None]
       execute_trade_counts_trade [OF h, of "offline_env 1 0.5" fresh_agent None]
       h f s1 s2
  show ?thesis by simp
qed

section \<open>Properties of the explainability service\<close>

lemma generate_human_explanation_raises:
  assumes "xe_render env agent_type action shap_values result = Inl e"
    and "xe_format_percent env (dict_get result ''confidence'' (PInt 0)) = Inl e'"
  shows "generate_human_explanation env agent_type action shap_values result = Inl e'"
  using assms by (simp add: generate_human_explanation_def bindE_def)

lemma explain_decision_fallback:
  assumes "\<And>shap_values. xe_render env agent_type action shap_values result = Inl e"
    and "xe_format_percent env (dict_get result ''confidence'' (PInt 0)) = Inl e'"
  shows "fst (explain_decision env self agent_type action parameters result) =
           Inr (''Unable to generate explanation: '' @ str_exn e')"
  by (simp add: explain_decision_def explain_decision_body_def Let_def split_beta
      generate_human_explanation_raises [OF assms(1) assms(2)])

lemma explain_decision_rendered:
  assumes "\<And>shap_values. xe_render env agent_type action shap_values result = Inr text"
  shows "fst (explain_decision env self agent_type action parameters result) = Inr text"
  by (simp add: explain_decision_def explain_decision_body_def Let_def split_beta
      generate_human_explanation_def assms)

text \<open>
  C9. For every agent type, action, parameters and result, and whatever the library calls
  do, \<^verbatim>\<open>explain_decision\<close> returns a string and raises nothing: when the body of its
  \<^verbatim>\<open>try\<close> block raises \<open>e\<close>, the string is \<^verbatim>\<open>Unable to generate explanation: \<close> followed by
  the message of \<open>e\<close>.
\<close>

theorem explain_decision_returns_string:
  "(\<exists>text. fst (explain_decision env self agent_type action parameters result) = Inr text) \<and>
   fst (explain_decision env self agent_type action parameters result) =
     (case fst (explain_decision_body env self agent_type action parameters result) of
        Inr text \<Rightarrow> Inr text
      | Inl e \<Rightarrow> Inr (''Unable to generate explanation: '' @ str_exn e))"
  by (simp add: explain_decision_def split: prod.splits sum.splits)

end
